theory Spec2Isabelle
  imports Complex_Main "HOL-Library.Sublist"
begin

section \<open>Python values, errors and text helpers\<close>

text \<open>
  Exceptions are values. \<open>ValueError\<close> carries its message; \<open>KeyError\<close> carries the
  missing dictionary key; \<open>IndexError\<close> is a list read out of range.
  Text is a list of code points below 256, so \<open>length\<close> is Python's \<open>len\<close> on such text.
  JSON numbers (Python int and float alike) are modelled as \<open>real\<close>, except where the
  source formats or indexes with them, where they are \<open>int\<close>.
\<close>

datatype error = ValueError string | KeyError string | IndexError

definition bind_err :: "error + 'a \<Rightarrow> ('a \<Rightarrow> error + 'b) \<Rightarrow> error + 'b" where
  "bind_err r f = (case r of Inl e \<Rightarrow> Inl e | Inr x \<Rightarrow> f x)"

definition get_key :: "string \<Rightarrow> 'a option \<Rightarrow> error + 'a" where
  \<comment> \<open>\<open>d[key]\<close>: the value, or KeyError when the key is absent.\<close>
  "get_key k v = (case v of None \<Rightarrow> Inl (KeyError k) | Some x \<Rightarrow> Inr x)"

definition py_index :: "'a list \<Rightarrow> nat \<Rightarrow> error + 'a" where
  \<comment> \<open>\<open>xs[i]\<close> for \<open>i \<ge> 0\<close>.\<close>
  "py_index xs i = (if i < length xs then Inr (xs ! i) else Inl IndexError)"

definition slice_to :: "'a list \<Rightarrow> int \<Rightarrow> 'a list" where
  \<comment> \<open>\<open>xs[:m]\<close>; a negative bound counts from the end.\<close>
  "slice_to xs m = (if 0 \<le> m then take (nat m) xs else take (length xs - nat (- m)) xs)"

definition quote :: "string \<Rightarrow> string" where
  \<comment> \<open>the text between apostrophes, as in \<open>f"'{s}'"\<close>\<close>
  "quote s = CHR 0x27 # s @ [CHR 0x27]"

definition digit_char :: "nat \<Rightarrow> char" where
  "digit_char d = ''0123456789'' ! d"

fun str_nat :: "nat \<Rightarrow> string" where
  "str_nat n = (if n < 10 then [digit_char n] else str_nat (n div 10) @ [digit_char (n mod 10)])"

declare str_nat.simps [simp del]

definition str_int :: "int \<Rightarrow> string" where
  \<comment> \<open>\<open>str(i)\<close>\<close>
  "str_int i = (if i < 0 then CHR ''-'' # str_nat (nat (- i)) else str_nat (nat i))"

fun group3 :: "string \<Rightarrow> string" where
  "group3 (a # b # c # d # ds) = a # b # c # CHR '','' # group3 (d # ds)"
| "group3 ds = ds"

definition fmt_thousands :: "int \<Rightarrow> string" where
  \<comment> \<open>\<open>f"{i:,}"\<close>: the digits in groups of three from the right, after the sign.\<close>
  "fmt_thousands i =
     (if i < 0 then ''-'' else '''') @ rev (group3 (rev (str_nat (nat \<bar>i\<bar>))))"

fun join :: "string \<Rightarrow> string list \<Rightarrow> string" where
  "join sep [] = []"
| "join sep [p] = p"
| "join sep (p # q # ps) = p @ sep @ join sep (q # ps)"

definition is_space :: "char \<Rightarrow> bool" where
  \<comment> \<open>\<open>str.isspace\<close> on code points below 256\<close>
  "is_space c = (of_char c \<in> {9, 10, 11, 12, 13, 28, 29, 30, 31, 32, 133, 160 :: nat})"

definition strip :: "string \<Rightarrow> string" where
  "strip s = rev (dropWhile is_space (rev (dropWhile is_space s)))"

section \<open>Data model\<close>

text \<open>
  A geocoding result is a dictionary. The keys the source always subscripts
  (\<open>loc["id"]\<close>, \<open>loc["name"]\<close>, \<open>loc["latitude"]\<close>, \<open>loc["longitude"]\<close>, \<open>loc["timezone"]\<close>) are
  plain fields; the keys it reads with \<open>.get\<close> may be absent and are options.
\<close>

record LocationCandidate =
  loc_id :: int
  loc_name :: string
  loc_latitude :: real
  loc_longitude :: real
  loc_country :: "string option"
  loc_admin1 :: "string option"
  loc_admin2 :: "string option"
  loc_timezone :: string
  loc_population :: "int option"
  loc_elevation :: "real option"

record LocationInfo =
  info_id :: int
  info_name :: string
  info_latitude :: real
  info_longitude :: real
  info_country :: string
  info_admin1 :: "string option"
  info_admin2 :: "string option"
  info_timezone :: string
  info_population :: "int option"
  info_elevation :: "real option"

record LocationChoice =
  selected_location_id :: int

datatype action = accept | decline | cancel

record ElicitationResult =
  action :: action
  data :: "LocationChoice option"

text \<open>
  The weather request is the parameter dictionary of \<open>get_weather_data\<close>; the response holds
  one block per requested group. In a block, \<open>time\<close> is text and every other entry a number
  (or a list of them), looked up by its name.
\<close>

record weather_request =
  req_latitude :: real
  req_longitude :: real
  req_current :: "string list option"
  req_hourly :: "string list option"
  req_daily :: "string list option"
  req_forecast_days :: int
  req_temperature_unit :: string
  req_wind_speed_unit :: string
  req_precipitation_unit :: string

record current_block =
  cur_time :: "string option"
  cur_values :: "string \<rightharpoonup> real"

record series_block =
  ser_time :: "string list option"
  ser_values :: "string \<rightharpoonup> real list"

record weather_data =
  wd_current :: "current_block option"
  wd_current_units :: "(string \<rightharpoonup> string) option"
  wd_hourly :: "series_block option"
  wd_hourly_units :: "(string \<rightharpoonup> string) option"
  wd_daily :: "series_block option"
  wd_daily_units :: "(string \<rightharpoonup> string) option"

text \<open>
  The constants of \<open>config.py\<close> and the table of \<open>constants.py\<close> are parameters.
\<close>

record config =
  MAX_LOCATION_ELICITATION_OPTIONS :: int
  MAX_LOCATION_SEARCH_RESULTS :: int
  MAX_FORECAST_DAYS :: int
  MAX_FORECAST_HOURS :: int
  HIGH_WIND_THRESHOLD_KMH :: real
  SEVERE_WEATHER_CODES :: "real set"
  FREEZING_RAIN_CODES :: "real set"
  SNOW_CODES :: "real set"
  weather_code_to_description :: "real \<Rightarrow> string"

text \<open>
  The world outside: the geocoding service (the outcome of the HTTP exchange of
  \<open>search_locations\<close>, after its translation of failures into \<open>ValueError\<close>), the host's
  interactive exchange \<open>ctx.elicit\<close>, the forecast service, the clock, and Python's
  rendering of a float. Every call to the outside is recorded as an event; the
  \<open>ctx.info\<close>/\<open>ctx.debug\<close> notices are not modelled.
\<close>

record environment =
  geocoding_api :: "string \<Rightarrow> int \<Rightarrow> error + LocationCandidate list"
  elicit :: "string \<Rightarrow> ElicitationResult"
  weather_api :: "weather_request \<Rightarrow> error + weather_data"
  now_isoformat :: string
  str_float :: "real \<Rightarrow> string"

datatype event = Search string int | Elicit string | Fetch weather_request

section \<open>Location search client\<close>

definition search_locations ::
  "config \<Rightarrow> environment \<Rightarrow> string \<Rightarrow> int \<Rightarrow> error + LocationCandidate list" where
  "search_locations cfg env location_name limit =
     geocoding_api env location_name (min limit (MAX_LOCATION_SEARCH_RESULTS cfg))"

section \<open>Location resolver\<close>

definition to_LocationInfo :: "LocationCandidate \<Rightarrow> LocationInfo" where
  "to_LocationInfo loc =
     \<lparr> info_id = loc_id loc,
       info_name = loc_name loc,
       info_latitude = loc_latitude loc,
       info_longitude = loc_longitude loc,
       info_country = (case loc_country loc of None \<Rightarrow> '''' | Some c \<Rightarrow> c),
       info_admin1 = loc_admin1 loc,
       info_admin2 = loc_admin2 loc,
       info_timezone = loc_timezone loc,
       info_population = loc_population loc,
       info_elevation = loc_elevation loc \<rparr>"

definition truthy_str :: "string option \<Rightarrow> bool" where
  \<comment> \<open>\<open>if loc.get(key)\<close> on text: present and not empty\<close>
  "truthy_str v = (case v of None \<Rightarrow> False | Some s \<Rightarrow> s \<noteq> [])"

definition admin_parts :: "LocationCandidate \<Rightarrow> string list" where
  "admin_parts loc =
     (case loc_admin1 loc of
        Some a \<Rightarrow> if truthy_str (loc_admin1 loc) then [a] else []
      | None \<Rightarrow> [])
     @
     (case loc_admin2 loc of
        Some b \<Rightarrow> if truthy_str (loc_admin2 loc) \<and> loc_admin2 loc \<noteq> loc_admin1 loc then [b] else []
      | None \<Rightarrow> [])"

definition option_text :: "nat \<Rightarrow> LocationCandidate \<Rightarrow> error + string" where
  "option_text i loc =
     (let admin_str = (if admin_parts loc \<noteq> [] then '', '' @ join '', '' (admin_parts loc) else '''');
          pop_str = (case loc_population loc of
                       Some p \<Rightarrow> if p \<noteq> 0 then '' (pop. '' @ fmt_thousands p @ '')'' else ''''
                     | None \<Rightarrow> '''')
      in bind_err (get_key ''country'' (loc_country loc)) (\<lambda>country.
           Inr (str_nat (i + 1) @ ''. '' @ loc_name loc @ admin_str @ '', '' @ country @ pop_str)))"

fun option_loop :: "nat \<Rightarrow> LocationCandidate list \<Rightarrow> error + string list" where
  "option_loop i [] = Inr []"
| "option_loop i (loc # locs) =
     bind_err (option_text i loc) (\<lambda>t.
       bind_err (option_loop (i + 1) locs) (\<lambda>ts. Inr (t # ts)))"

definition location_options :: "config \<Rightarrow> LocationCandidate list \<Rightarrow> error + string list" where
  "location_options cfg locations =
     option_loop 0 (slice_to locations (MAX_LOCATION_ELICITATION_OPTIONS cfg))"


definition message_of :: "string \<Rightarrow> string list \<Rightarrow> string" where
  "message_of location_name opts =
     ''Multiple locations found for '' @ quote location_name @ '':'' @ [CHR 0x0A, CHR 0x0A]
       @ join [CHR 0x0A] opts @ [CHR 0x0A, CHR 0x0A] @ ''Please select the correct location:''"

definition elicitation_message :: "config \<Rightarrow> string \<Rightarrow> LocationCandidate list \<Rightarrow> error + string" where
  "elicitation_message cfg location_name locations =
     bind_err (location_options cfg locations) (\<lambda>opts. Inr (message_of location_name opts))"

definition not_found_message :: "string \<Rightarrow> string" where
  "not_found_message location_name =
     ''No locations found for '' @ quote location_name @ ''. Please try a different search term.''"

definition select_location ::
  "config \<Rightarrow> LocationCandidate list \<Rightarrow> ElicitationResult \<Rightarrow> error + LocationInfo" where
  \<comment> \<open>what the source does with the outcome of the exchange\<close>
  "select_location cfg locations result =
     (if action result \<noteq> accept \<or> data result = None
      then Inl (ValueError ''Location selection was cancelled or invalid.'')
      else
        (case data result of
           None \<Rightarrow> Inl (ValueError ''Location selection was cancelled or invalid.'')
         | Some choice \<Rightarrow>
             let selected_index = selected_location_id choice - 1 in
             if selected_index < 0 \<or>
                selected_index \<ge> int (length (slice_to locations (MAX_LOCATION_ELICITATION_OPTIONS cfg)))
             then Inl (ValueError ''Invalid location selection. Please choose a number from the list.'')
             else Inr (to_LocationInfo (locations ! nat selected_index))))"

definition resolve_location ::
  "config \<Rightarrow> environment \<Rightarrow> string \<Rightarrow> (error + LocationInfo) \<times> event list" where
  "resolve_location cfg env location_name =
     (case search_locations cfg env location_name 10 of
        Inl e \<Rightarrow> (Inl e, [Search location_name 10])
      | Inr locations \<Rightarrow>
          (case locations of
             [] \<Rightarrow> (Inl (ValueError (not_found_message location_name)), [Search location_name 10])
           | [loc] \<Rightarrow> (Inr (to_LocationInfo loc), [Search location_name 10])
           | _ \<Rightarrow>
               (case elicitation_message cfg location_name locations of
                  Inl e \<Rightarrow> (Inl e, [Search location_name 10])
                | Inr message \<Rightarrow>
                    (select_location cfg locations (elicit env message),
                     [Search location_name 10, Elicit message]))))"

section \<open>Tool handlers\<close>

record CurrentWeather =
  cw_location :: LocationInfo
  cw_temperature :: real
  cw_temperature_unit :: string
  cw_humidity :: real
  cw_weather_description :: string
  cw_weather_code :: real
  cw_wind_speed :: real
  cw_wind_direction :: real
  cw_wind_speed_unit :: string
  cw_pressure :: real
  cw_cloud_cover :: real
  cw_timestamp :: string

record DailyForecast =
  df_date :: string
  df_temperature_max :: real
  df_temperature_min :: real
  df_temperature_unit :: string
  df_weather_description :: string
  df_weather_code :: real
  df_precipitation_sum :: real
  df_precipitation_unit :: string
  df_wind_speed_max :: real
  df_wind_direction_dominant :: real
  df_wind_speed_unit :: string

record WeatherForecast =
  wf_location :: LocationInfo
  wf_forecast_days :: "DailyForecast list"
  wf_generated_at :: string

record HourlyWeatherPoint =
  hp_time :: string
  hp_temperature :: real
  hp_humidity :: real
  hp_weather_code :: real
  hp_weather_description :: string
  hp_precipitation :: real
  hp_wind_speed :: real
  hp_wind_direction :: real
  hp_cloud_cover :: real

record HourlyForecast =
  hf_location :: LocationInfo
  hf_hourly_data :: "HourlyWeatherPoint list"
  hf_temperature_unit :: string
  hf_precipitation_unit :: string
  hf_wind_speed_unit :: string
  hf_generated_at :: string

record alert =
  alert_type :: string
  alert_severity :: string
  alert_title :: string
  alert_description :: string
  alert_time :: string

record alerts_result =
  ar_location :: LocationInfo
  ar_alerts :: "alert list"
  ar_alert_count :: nat
  ar_checked_at :: string

definition get_weather_data :: "environment \<Rightarrow> weather_request \<Rightarrow> error + weather_data" where
  "get_weather_data env req = weather_api env req"

definition weather_request_of ::
  "LocationInfo \<Rightarrow> string list option \<Rightarrow> string list option \<Rightarrow> string list option \<Rightarrow> int \<Rightarrow> string
     \<Rightarrow> weather_request" where
  \<comment> \<open>the arguments of a \<open>get_weather_data\<close> call, the units not given taking their defaults\<close>
  "weather_request_of location cur hly dly days temperature_unit =
     \<lparr> req_latitude = info_latitude location,
       req_longitude = info_longitude location,
       req_current = cur, req_hourly = hly, req_daily = dly,
       req_forecast_days = days,
       req_temperature_unit = temperature_unit,
       req_wind_speed_unit = ''kmh'',
       req_precipitation_unit = ''mm'' \<rparr>"

fun collect :: "(nat \<Rightarrow> error + 'a) \<Rightarrow> nat list \<Rightarrow> error + 'a list" where
  \<comment> \<open>a loop appending \<open>f i\<close> for each index, left at the first exception\<close>
  "collect f [] = Inr []"
| "collect f (i # is) = bind_err (f i) (\<lambda>x. bind_err (collect f is) (\<lambda>xs. Inr (x # xs)))"

definition series_at :: "series_block \<Rightarrow> string \<Rightarrow> nat \<Rightarrow> error + real" where
  \<comment> \<open>\<open>block[key][i]\<close>\<close>
  "series_at block k i = bind_err (get_key k (ser_values block k)) (\<lambda>xs. py_index xs i)"

definition time_at :: "series_block \<Rightarrow> nat \<Rightarrow> error + string" where
  \<comment> \<open>\<open>block["time"][i]\<close>\<close>
  "time_at block i = bind_err (get_key ''time'' (ser_time block)) (\<lambda>ts. py_index ts i)"

definition search_locations_tool ::
  "config \<Rightarrow> environment \<Rightarrow> string \<Rightarrow> int \<Rightarrow> (error + LocationInfo list) \<times> event list" where
  "search_locations_tool cfg env location_name limit =
     (if length (strip location_name) < 2
      then (Inl (ValueError ''Location name must be at least 2 characters long.''), [])
      else
        let limit = max 1 (min limit 10) in
        (case search_locations cfg env location_name limit of
           Inl e \<Rightarrow> (Inl e, [Search location_name limit])
         | Inr locations \<Rightarrow> (Inr (map to_LocationInfo locations), [Search location_name limit])))"

definition current_params :: "string list" where
  "current_params =
     [''temperature_2m'', ''relative_humidity_2m'', ''weather_code'',
      ''wind_speed_10m'', ''wind_direction_10m'', ''pressure_msl'', ''cloud_cover'']"

definition shape_current :: "config \<Rightarrow> LocationInfo \<Rightarrow> weather_data \<Rightarrow> error + CurrentWeather" where
  "shape_current cfg location weather_data =
     bind_err (get_key ''current'' (wd_current weather_data)) (\<lambda>current.
     bind_err (get_key ''temperature_2m'' (cur_values current ''temperature_2m'')) (\<lambda>temperature.
     bind_err (get_key ''current_units'' (wd_current_units weather_data)) (\<lambda>units.
     bind_err (get_key ''temperature_2m'' (units ''temperature_2m'')) (\<lambda>temperature_unit.
     bind_err (get_key ''relative_humidity_2m'' (cur_values current ''relative_humidity_2m'')) (\<lambda>humidity.
     bind_err (get_key ''weather_code'' (cur_values current ''weather_code'')) (\<lambda>weather_code.
     bind_err (get_key ''wind_speed_10m'' (cur_values current ''wind_speed_10m'')) (\<lambda>wind_speed.
     bind_err (get_key ''wind_direction_10m'' (cur_values current ''wind_direction_10m'')) (\<lambda>wind_direction.
     bind_err (get_key ''wind_speed_10m'' (units ''wind_speed_10m'')) (\<lambda>wind_speed_unit.
     bind_err (get_key ''pressure_msl'' (cur_values current ''pressure_msl'')) (\<lambda>pressure.
     bind_err (get_key ''cloud_cover'' (cur_values current ''cloud_cover'')) (\<lambda>cloud_cover.
     bind_err (get_key ''time'' (cur_time current)) (\<lambda>timestamp.
       Inr \<lparr> cw_location = location,
             cw_temperature = temperature,
             cw_temperature_unit = temperature_unit,
             cw_humidity = humidity,
             cw_weather_description = weather_code_to_description cfg weather_code,
             cw_weather_code = weather_code,
             cw_wind_speed = wind_speed,
             cw_wind_direction = wind_direction,
             cw_wind_speed_unit = wind_speed_unit,
             cw_pressure = pressure,
             cw_cloud_cover = cloud_cover,
             cw_timestamp = timestamp \<rparr>))))))))))))"

definition get_current_weather ::
  "config \<Rightarrow> environment \<Rightarrow> string \<Rightarrow> string \<Rightarrow> (error + CurrentWeather) \<times> event list" where
  "get_current_weather cfg env location_name temperature_unit =
     (case resolve_location cfg env location_name of
        (Inl e, tr) \<Rightarrow> (Inl e, tr)
      | (Inr location, tr) \<Rightarrow>
          let req = weather_request_of location (Some current_params) None None 7 temperature_unit in
          (bind_err (get_weather_data env req) (shape_current cfg location), tr @ [Fetch req]))"

definition daily_params :: "string list" where
  "daily_params =
     [''temperature_2m_max'', ''temperature_2m_min'', ''weather_code'',
      ''precipitation_sum'', ''wind_speed_10m_max'', ''wind_direction_10m_dominant'']"

definition daily_forecast_at ::
  "config \<Rightarrow> series_block \<Rightarrow> (string \<rightharpoonup> string) \<Rightarrow> nat \<Rightarrow> error + DailyForecast" where
  "daily_forecast_at cfg daily daily_units i =
     bind_err (time_at daily i) (\<lambda>date.
     bind_err (series_at daily ''temperature_2m_max'' i) (\<lambda>temperature_max.
     bind_err (series_at daily ''temperature_2m_min'' i) (\<lambda>temperature_min.
     bind_err (get_key ''temperature_2m_max'' (daily_units ''temperature_2m_max'')) (\<lambda>temperature_unit.
     bind_err (series_at daily ''weather_code'' i) (\<lambda>weather_code.
     bind_err (series_at daily ''precipitation_sum'' i) (\<lambda>precipitation_sum.
     bind_err (get_key ''precipitation_sum'' (daily_units ''precipitation_sum'')) (\<lambda>precipitation_unit.
     bind_err (series_at daily ''wind_speed_10m_max'' i) (\<lambda>wind_speed_max.
     bind_err (series_at daily ''wind_direction_10m_dominant'' i) (\<lambda>wind_direction_dominant.
     bind_err (get_key ''wind_speed_10m_max'' (daily_units ''wind_speed_10m_max'')) (\<lambda>wind_speed_unit.
       Inr \<lparr> df_date = date,
             df_temperature_max = temperature_max,
             df_temperature_min = temperature_min,
             df_temperature_unit = temperature_unit,
             df_weather_description = weather_code_to_description cfg weather_code,
             df_weather_code = weather_code,
             df_precipitation_sum = precipitation_sum,
             df_precipitation_unit = precipitation_unit,
             df_wind_speed_max = wind_speed_max,
             df_wind_direction_dominant = wind_direction_dominant,
             df_wind_speed_unit = wind_speed_unit \<rparr>))))))))))"

definition shape_daily ::
  "config \<Rightarrow> environment \<Rightarrow> LocationInfo \<Rightarrow> weather_data \<Rightarrow> error + WeatherForecast" where
  "shape_daily cfg env location weather_data =
     bind_err (get_key ''daily'' (wd_daily weather_data)) (\<lambda>daily.
     bind_err (get_key ''daily_units'' (wd_daily_units weather_data)) (\<lambda>daily_units.
     bind_err (get_key ''time'' (ser_time daily)) (\<lambda>times.
     bind_err (collect (daily_forecast_at cfg daily daily_units) [0..<length times]) (\<lambda>forecast_days_list.
       Inr \<lparr> wf_location = location,
             wf_forecast_days = forecast_days_list,
             wf_generated_at = now_isoformat env \<rparr>))))"

definition get_weather_forecast ::
  "config \<Rightarrow> environment \<Rightarrow> string \<Rightarrow> int \<Rightarrow> string \<Rightarrow> (error + WeatherForecast) \<times> event list" where
  "get_weather_forecast cfg env location_name forecast_days temperature_unit =
     (case resolve_location cfg env location_name of
        (Inl e, tr) \<Rightarrow> (Inl e, tr)
      | (Inr location, tr) \<Rightarrow>
          let forecast_days = max 1 (min forecast_days (MAX_FORECAST_DAYS cfg));
              req = weather_request_of location None None (Some daily_params) forecast_days temperature_unit
          in (bind_err (get_weather_data env req) (shape_daily cfg env location), tr @ [Fetch req]))"

definition hourly_params :: "string list" where
  "hourly_params =
     [''temperature_2m'', ''relative_humidity_2m'', ''weather_code'',
      ''precipitation'', ''wind_speed_10m'', ''wind_direction_10m'', ''cloud_cover'']"

definition hourly_point_at :: "config \<Rightarrow> series_block \<Rightarrow> nat \<Rightarrow> error + HourlyWeatherPoint" where
  "hourly_point_at cfg hourly i =
     bind_err (time_at hourly i) (\<lambda>time.
     bind_err (series_at hourly ''temperature_2m'' i) (\<lambda>temperature.
     bind_err (series_at hourly ''relative_humidity_2m'' i) (\<lambda>humidity.
     bind_err (series_at hourly ''weather_code'' i) (\<lambda>weather_code.
     bind_err (series_at hourly ''precipitation'' i) (\<lambda>precipitation.
     bind_err (series_at hourly ''wind_speed_10m'' i) (\<lambda>wind_speed.
     bind_err (series_at hourly ''wind_direction_10m'' i) (\<lambda>wind_direction.
     bind_err (series_at hourly ''cloud_cover'' i) (\<lambda>cloud_cover.
       Inr \<lparr> hp_time = time,
             hp_temperature = temperature,
             hp_humidity = humidity,
             hp_weather_code = weather_code,
             hp_weather_description = weather_code_to_description cfg weather_code,
             hp_precipitation = precipitation,
             hp_wind_speed = wind_speed,
             hp_wind_direction = wind_direction,
             hp_cloud_cover = cloud_cover \<rparr>))))))))"

definition shape_hourly ::
  "config \<Rightarrow> environment \<Rightarrow> LocationInfo \<Rightarrow> int \<Rightarrow> weather_data \<Rightarrow> error + HourlyForecast" where
  "shape_hourly cfg env location forecast_hours weather_data =
     bind_err (get_key ''hourly'' (wd_hourly weather_data)) (\<lambda>hourly.
     bind_err (get_key ''hourly_units'' (wd_hourly_units weather_data)) (\<lambda>hourly_units.
     bind_err (get_key ''time'' (ser_time hourly)) (\<lambda>times.
       let actual_hours = min forecast_hours (int (length times)) in
       bind_err (collect (hourly_point_at cfg hourly) [0..<nat actual_hours]) (\<lambda>hourly_data.
       bind_err (get_key ''temperature_2m'' (hourly_units ''temperature_2m'')) (\<lambda>temperature_unit.
       bind_err (get_key ''precipitation'' (hourly_units ''precipitation'')) (\<lambda>precipitation_unit.
       bind_err (get_key ''wind_speed_10m'' (hourly_units ''wind_speed_10m'')) (\<lambda>wind_speed_unit.
         Inr \<lparr> hf_location = location,
               hf_hourly_data = hourly_data,
               hf_temperature_unit = temperature_unit,
               hf_precipitation_unit = precipitation_unit,
               hf_wind_speed_unit = wind_speed_unit,
               hf_generated_at = now_isoformat env \<rparr>)))))))"

definition get_hourly_forecast ::
  "config \<Rightarrow> environment \<Rightarrow> string \<Rightarrow> int \<Rightarrow> string \<Rightarrow> (error + HourlyForecast) \<times> event list" where
  "get_hourly_forecast cfg env location_name forecast_hours temperature_unit =
     (case resolve_location cfg env location_name of
        (Inl e, tr) \<Rightarrow> (Inl e, tr)
      | (Inr location, tr) \<Rightarrow>
          let forecast_hours = max 1 (min forecast_hours (MAX_FORECAST_HOURS cfg));
              req = weather_request_of location None (Some hourly_params) None 7 temperature_unit
          in (bind_err (get_weather_data env req) (shape_hourly cfg env location forecast_hours),
              tr @ [Fetch req]))"

definition code_alerts :: "config \<Rightarrow> real \<Rightarrow> alert list" where
  \<comment> \<open>the \<open>if\<close>/\<open>elif\<close> chain on the current weather code\<close>
  "code_alerts cfg current_weather_code =
     (if current_weather_code \<in> SEVERE_WEATHER_CODES cfg then
        [\<lparr> alert_type = ''severe_weather'', alert_severity = ''high'',
            alert_title = ''Thunderstorm Warning'',
            alert_description = weather_code_to_description cfg current_weather_code,
            alert_time = ''current'' \<rparr>]
      else if current_weather_code \<in> FREEZING_RAIN_CODES cfg then
        [\<lparr> alert_type = ''severe_weather'', alert_severity = ''high'',
            alert_title = ''Freezing Rain Warning'',
            alert_description = weather_code_to_description cfg current_weather_code,
            alert_time = ''current'' \<rparr>]
      else if current_weather_code \<in> SNOW_CODES cfg then
        [\<lparr> alert_type = ''weather_advisory'', alert_severity = ''medium'',
            alert_title = ''Snow Advisory'',
            alert_description = weather_code_to_description cfg current_weather_code,
            alert_time = ''current'' \<rparr>]
      else [])"

definition wind_alerts :: "config \<Rightarrow> environment \<Rightarrow> real \<Rightarrow> alert list" where
  "wind_alerts cfg env current_wind =
     (if current_wind > HIGH_WIND_THRESHOLD_KMH cfg then
        [\<lparr> alert_type = ''wind_warning'', alert_severity = ''medium'',
            alert_title = ''High Wind Warning'',
            alert_description = ''Strong winds at '' @ str_float env current_wind @ '' km/h'',
            alert_time = ''current'' \<rparr>]
      else [])"

definition incoming_alert :: "string \<Rightarrow> alert" where
  "incoming_alert t =
     \<lparr> alert_type = ''severe_weather'', alert_severity = ''medium'',
       alert_title = ''Incoming Thunderstorm'',
       alert_description = ''Thunderstorm expected at '' @ t,
       alert_time = t \<rparr>"

fun upcoming_scan :: "config \<Rightarrow> series_block \<Rightarrow> alert list \<Rightarrow> nat list \<Rightarrow> error + alert list" where
  \<comment> \<open>the loop over the hourly samples; \<open>break\<close> ends it at the first alert it records\<close>
  "upcoming_scan cfg hourly alerts [] = Inr alerts"
| "upcoming_scan cfg hourly alerts (i # is) =
     bind_err (series_at hourly ''weather_code'' i) (\<lambda>weather_code.
       if weather_code \<in> SEVERE_WEATHER_CODES cfg
          \<and> \<not> list_ex (\<lambda>alert. alert_type alert = ''severe_weather'') alerts
       then bind_err (time_at hourly i) (\<lambda>t. Inr (alerts @ [incoming_alert t]))
       else upcoming_scan cfg hourly alerts is)"

definition build_alerts :: "config \<Rightarrow> environment \<Rightarrow> weather_data \<Rightarrow> error + alert list" where
  "build_alerts cfg env weather_data =
     bind_err (get_key ''current'' (wd_current weather_data)) (\<lambda>current.
     bind_err (get_key ''hourly'' (wd_hourly weather_data)) (\<lambda>hourly.
     bind_err (get_key ''weather_code'' (cur_values current ''weather_code'')) (\<lambda>current_weather_code.
     bind_err (get_key ''wind_speed_10m'' (cur_values current ''wind_speed_10m'')) (\<lambda>current_wind.
     bind_err (get_key ''time'' (ser_time hourly)) (\<lambda>times.
       upcoming_scan cfg hourly
         (code_alerts cfg current_weather_code @ wind_alerts cfg env current_wind)
         [0..<min 24 (length times)])))))"

definition alerts_current_params :: "string list" where
  "alerts_current_params = [''temperature_2m'', ''weather_code'', ''wind_speed_10m'', ''precipitation'']"

definition alerts_hourly_params :: "string list" where
  "alerts_hourly_params =
     [''temperature_2m'', ''weather_code'', ''wind_speed_10m'', ''precipitation'', ''wind_gusts_10m'']"

definition get_weather_alerts ::
  "config \<Rightarrow> environment \<Rightarrow> string \<Rightarrow> (error + alerts_result) \<times> event list" where
  "get_weather_alerts cfg env location_name =
     (case resolve_location cfg env location_name of
        (Inl e, tr) \<Rightarrow> (Inl e, tr)
      | (Inr location, tr) \<Rightarrow>
          let req = weather_request_of location (Some alerts_current_params) (Some alerts_hourly_params)
                      None 2 ''celsius''
          in (bind_err (get_weather_data env req) (\<lambda>weather_data.
                bind_err (build_alerts cfg env weather_data) (\<lambda>alerts.
                  Inr \<lparr> ar_location = location,
                        ar_alerts = alerts,
                        ar_alert_count = length alerts,
                        ar_checked_at = now_isoformat env \<rparr>)),
              tr @ [Fetch req]))"

section \<open>A concrete configuration and world\<close>

text \<open>
  The values are the ones the comments and docstrings of the handlers name: the top 5
  candidates are offered, forecasts span 1-16 days and 1-168 hours, wind above 50 km/h is
  high. The code sets are the WMO codes for thunderstorm, freezing rain and snow.
\<close>

definition example_config :: config where
  "example_config =
     \<lparr> MAX_LOCATION_ELICITATION_OPTIONS = 5,
       MAX_LOCATION_SEARCH_RESULTS = 10,
       MAX_FORECAST_DAYS = 16,
       MAX_FORECAST_HOURS = 168,
       HIGH_WIND_THRESHOLD_KMH = 50,
       SEVERE_WEATHER_CODES = {95, 96, 99},
       FREEZING_RAIN_CODES = {66, 67},
       SNOW_CODES = {71, 73, 75, 77, 85, 86},
       weather_code_to_description = (\<lambda>c. if c = 95 then ''Thunderstorm'' else ''Unknown'') \<rparr>"

definition place ::
  "int \<Rightarrow> string \<Rightarrow> string option \<Rightarrow> string option \<Rightarrow> int option \<Rightarrow> LocationCandidate" where
  "place i name admin1 admin2 pop =
     \<lparr> loc_id = i, loc_name = name, loc_latitude = 39.8, loc_longitude = -89.6,
       loc_country = Some ''United States'', loc_admin1 = admin1, loc_admin2 = admin2,
       loc_timezone = ''America/Chicago'', loc_population = pop, loc_elevation = None \<rparr>"

definition springfields :: "LocationCandidate list" where
  "springfields =
     [place 1 ''Springfield'' (Some ''Missouri'') (Some ''Greene'') (Some 166810),
      place 2 ''Springfield'' (Some ''Illinois'') (Some ''Sangamon'') (Some 116250),
      place 3 ''Springfield'' (Some ''Massachusetts'') (Some ''Hampden'') (Some 1234567),
      place 4 ''Springfield'' (Some ''Oregon'') None (Some 0),
      place 5 ''Springfield'' (Some ''Ohio'') (Some ''Ohio'') None,
      place 6 ''Springfield'' (Some ''Virginia'') None (Some 30484),
      place 7 ''Springfield'' None None None]"

definition springfield_options :: "string list" where
  "springfield_options =
     [''1. Springfield, Missouri, Greene, United States (pop. 166,810)'',
      ''2. Springfield, Illinois, Sangamon, United States (pop. 116,250)'',
      ''3. Springfield, Massachusetts, Hampden, United States (pop. 1,234,567)'',
      ''4. Springfield, Oregon, United States'',
      ''5. Springfield, Ohio, United States'']"

definition vancouver :: LocationCandidate where
  "vancouver =
     \<lparr> loc_id = 6173331, loc_name = ''Vancouver'', loc_latitude = 49.25, loc_longitude = -123.12,
       loc_country = Some ''Canada'', loc_admin1 = Some ''British Columbia'',
       loc_admin2 = Some ''Metro Vancouver'', loc_timezone = ''America/Vancouver'',
       loc_population = Some 600000, loc_elevation = Some 70 \<rparr>"

definition example_current :: "real \<Rightarrow> real \<Rightarrow> current_block" where
  "example_current code wind =
     \<lparr> cur_time = Some ''2025-11-01T12:00'',
       cur_values = (\<lambda>k. if k = ''weather_code'' then Some code
                          else if k = ''wind_speed_10m'' then Some wind
                          else Some 10) \<rparr>"

definition example_hourly :: series_block where
  "example_hourly =
     \<lparr> ser_time = Some [''2025-11-01T13:00'', ''2025-11-01T14:00'', ''2025-11-01T15:00''],
       ser_values = (\<lambda>k. if k = ''weather_code'' then Some [3, 95, 96] else Some [10, 11, 12]) \<rparr>"

definition example_weather :: "real \<Rightarrow> real \<Rightarrow> weather_request \<Rightarrow> error + weather_data" where
  \<comment> \<open>a forecast service answering with as many days as asked for and three hourly samples\<close>
  "example_weather code wind req =
     Inr \<lparr> wd_current = Some (example_current code wind),
           wd_current_units = Some (\<lambda>k. Some ''unit''),
           wd_hourly = Some example_hourly,
           wd_hourly_units = Some (\<lambda>k. Some ''unit''),
           wd_daily = Some \<lparr> ser_time = Some (replicate (nat (req_forecast_days req)) ''2025-11-01''),
                            ser_values = (\<lambda>k. Some (replicate (nat (req_forecast_days req)) 3)) \<rparr>,
           wd_daily_units = Some (\<lambda>k. Some ''unit'') \<rparr>"

definition example_env ::
  "ElicitationResult \<Rightarrow> (weather_request \<Rightarrow> error + weather_data) \<Rightarrow> environment" where
  "example_env answer weather =
     \<lparr> geocoding_api = (\<lambda>name count.
          if name = ''Springfield'' then Inr springfields
          else if name = ''Vancouver'' then Inr [vancouver]
          else Inr []),
       elicit = (\<lambda>message. answer),
       weather_api = weather,
       now_isoformat = ''2025-11-01T12:00:00'',
       str_float = (\<lambda>x. ''62.0'') \<rparr>"


definition clear_result :: alerts_result where
  "clear_result =
     \<lparr> ar_location = to_LocationInfo vancouver,
       ar_alerts =
         [\<lparr> alert_type = ''severe_weather'', alert_severity = ''medium'',
             alert_title = ''Incoming Thunderstorm'',
             alert_description = ''Thunderstorm expected at 2025-11-01T14:00'',
             alert_time = ''2025-11-01T14:00'' \<rparr>],
       ar_alert_count = 1,
       ar_checked_at = ''2025-11-01T12:00:00'' \<rparr>"

section \<open>Helper lemmas\<close>

lemma bind_err_Inr_iff: "bind_err r f = Inr y \<longleftrightarrow> (\<exists>x. r = Inr x \<and> f x = Inr y)"
  by (cases r) (simp_all add: bind_err_def)

lemma get_key_Inr_iff: "get_key k v = Inr x \<longleftrightarrow> v = Some x"
  by (cases v) (simp_all add: get_key_def)

lemma slice_to_prefix: "prefix (slice_to xs m) xs"
  by (simp add: slice_to_def take_is_prefix)

lemma slice_to_nth: "i < length (slice_to xs m) \<Longrightarrow> slice_to xs m ! i = xs ! i"
  by (auto simp: slice_to_def split: if_splits)


lemma resolve_location_many:
  assumes "search_locations cfg env location_name 10 = Inr locations"
    and "1 < length locations"
    and "elicitation_message cfg location_name locations = Inr message"
  shows "resolve_location cfg env location_name =
           (select_location cfg locations (elicit env message),
            [Search location_name 10, Elicit message])"
proof -
  obtain a b rest where "locations = a # b # rest"
    using assms(2) by (cases locations; cases "tl locations") auto
  then show ?thesis
    using assms(1,3) by (simp add: resolve_location_def)
qed


lemma option_text_shape:
  assumes "option_text i loc = Inr t"
  shows "\<exists>country. loc_country loc = Some country \<and>
     t = str_nat (i + 1) @ ''. '' @ loc_name loc
         @ (case loc_admin1 loc of Some a \<Rightarrow> if a = [] then [] else '', '' @ a | None \<Rightarrow> [])
         @ (case loc_admin2 loc of
              Some b \<Rightarrow> if b = [] \<or> loc_admin2 loc = loc_admin1 loc then [] else '', '' @ b
            | None \<Rightarrow> [])
         @ '', '' @ country
         @ (case loc_population loc of
              Some p \<Rightarrow> if p = 0 then [] else '' (pop. '' @ fmt_thousands p @ '')''
            | None \<Rightarrow> [])"
  using assms
  by (auto simp: option_text_def Let_def bind_err_Inr_iff get_key_Inr_iff admin_parts_def truthy_str_def
      split: option.splits if_splits)





lemma digit_char_in: "d < 10 \<Longrightarrow> digit_char d \<in> set ''0123456789''"
  unfolding digit_char_def by (rule nth_mem) simp

lemma str_nat_digits: "set (str_nat n) \<subseteq> set ''0123456789''"
proof (induction n rule: str_nat.induct)
  case (1 n)
  show ?case
  proof (cases "n < 10")
    case True
    then show ?thesis using digit_char_in [of n] by (subst str_nat.simps) simp
  next
    case False
    have "digit_char (n mod 10) \<in> set ''0123456789''" by (rule digit_char_in) simp
    then show ?thesis using False 1 by (subst str_nat.simps) simp
  qed
qed

lemma group3_filter: "filter (\<lambda>c. c \<noteq> CHR '','') (group3 ds) = filter (\<lambda>c. c \<noteq> CHR '','') ds"
  by (induction ds rule: group3.induct) simp_all

lemma str_nat_no_comma: "filter (\<lambda>c. c \<noteq> CHR '','') (str_nat n) = str_nat n"
proof -
  have "\<forall>c\<in>set (str_nat n). c \<noteq> CHR '',''"
    using str_nat_digits [of n] by auto
  then show ?thesis by (simp add: filter_id_conv)
qed

lemma fmt_thousands_digits: "filter (\<lambda>c. c \<noteq> CHR '','') (fmt_thousands p) = str_int p"
proof -
  have "filter (\<lambda>c. c \<noteq> CHR '','') (rev (group3 (rev (str_nat n)))) = str_nat n" for n
    by (simp add: rev_filter [symmetric] group3_filter str_nat_no_comma)
  moreover have "nat \<bar>p\<bar> = (if p < 0 then nat (- p) else nat p)" by simp
  ultimately show ?thesis
    by (simp add: fmt_thousands_def str_int_def)
qed

lemmas render_simps =
  location_options_def slice_to_def option_text_def bind_err_def get_key_def admin_parts_def
  truthy_str_def fmt_thousands_def str_nat.simps digit_char_def

lemma springfield_search:
  "search_locations example_config (example_env answer weather) ''Springfield'' 10 = Inr springfields"
  by (simp add: search_locations_def example_env_def)

lemma springfield_rendered:
  "location_options example_config springfields = Inr springfield_options"
  by (simp add: example_config_def springfields_def place_def springfield_options_def render_simps)

lemma springfield_message:
  "elicitation_message example_config ''Springfield'' springfields =
     Inr (message_of ''Springfield'' springfield_options)"
  by (simp add: elicitation_message_def springfield_rendered bind_err_def)

section \<open>Location resolution\<close>

text \<open>
  C1. With more than one candidate, when the exchange is accepted with a selection \<open>k\<close>
  between 1 and the length of the truncated list, \<open>resolve_location\<close> returns the
  \<open>LocationInfo\<close> built from candidate \<open>k - 1\<close> of the truncated prefix of the search
  results: each field of the result is that candidate's, a missing country becoming the
  empty text. That position lies before the truncation boundary, and the truncated list is
  a prefix of the full one, so the source's read from the full list is the same candidate.
  The exchange is the one issued with the message the source assembles.
\<close>

theorem resolve_location_selection:
  assumes "search_locations cfg env location_name 10 = Inr locations"
    and "1 < length locations"
    and "elicitation_message cfg location_name locations = Inr message"
    and "elicit env message = \<lparr> action = accept, data = Some \<lparr> selected_location_id = k \<rparr> \<rparr>"
    and "1 \<le> k"
    and "k \<le> int (length (slice_to locations (MAX_LOCATION_ELICITATION_OPTIONS cfg)))"
  shows "(let selected = slice_to locations (MAX_LOCATION_ELICITATION_OPTIONS cfg) ! nat (k - 1) in
           resolve_location cfg env location_name =
             (Inr \<lparr> info_id = loc_id selected,
                    info_name = loc_name selected,
                    info_latitude = loc_latitude selected,
                    info_longitude = loc_longitude selected,
                    info_country = (case loc_country selected of None \<Rightarrow> [] | Some c \<Rightarrow> c),
                    info_admin1 = loc_admin1 selected,
                    info_admin2 = loc_admin2 selected,
                    info_timezone = loc_timezone selected,
                    info_population = loc_population selected,
                    info_elevation = loc_elevation selected \<rparr>,
              [Search location_name 10, Elicit message]))
         \<and> nat (k - 1) < length (slice_to locations (MAX_LOCATION_ELICITATION_OPTIONS cfg))
         \<and> slice_to locations (MAX_LOCATION_ELICITATION_OPTIONS cfg) ! nat (k - 1) = locations ! nat (k - 1)
         \<and> prefix (slice_to locations (MAX_LOCATION_ELICITATION_OPTIONS cfg)) locations"
proof -
  let ?shown = "slice_to locations (MAX_LOCATION_ELICITATION_OPTIONS cfg)"
  have inside: "nat (k - 1) < length ?shown"
    using assms(5,6) by linarith
  have same: "?shown ! nat (k - 1) = locations ! nat (k - 1)"
    using inside by (rule slice_to_nth)
  have "select_location cfg locations (elicit env message) = Inr (to_LocationInfo (locations ! nat (k - 1)))"
    using assms(4,5,6) by (simp add: select_location_def)
  then have "resolve_location cfg env location_name =
      (Inr (to_LocationInfo (?shown ! nat (k - 1))), [Search location_name 10, Elicit message])"
    using resolve_location_many [OF assms(1,2,3)] same by simp
  then have built: "let selected = ?shown ! nat (k - 1) in
           resolve_location cfg env location_name =
             (Inr \<lparr> info_id = loc_id selected,
                    info_name = loc_name selected,
                    info_latitude = loc_latitude selected,
                    info_longitude = loc_longitude selected,
                    info_country = (case loc_country selected of None \<Rightarrow> [] | Some c \<Rightarrow> c),
                    info_admin1 = loc_admin1 selected,
                    info_admin2 = loc_admin2 selected,
                    info_timezone = loc_timezone selected,
                    info_population = loc_population selected,
                    info_elevation = loc_elevation selected \<rparr>,
              [Search location_name 10, Elicit message])"
    by (simp add: to_LocationInfo_def Let_def)
  have pre: "prefix ?shown locations" by (rule slice_to_prefix)
  show ?thesis using built inside same pre by (intro conjI)
qed

theorem resolve_location_selection_witness:
  "fst (resolve_location example_config
          (example_env \<lparr> action = accept, data = Some \<lparr> selected_location_id = 2 \<rparr> \<rparr> (example_weather 95 62))
          ''Springfield'')
     = Inr \<lparr> info_id = 2,
              info_name = ''Springfield'',
              info_latitude = 39.8,
              info_longitude = -89.6,
              info_country = ''United States'',
              info_admin1 = Some ''Illinois'',
              info_admin2 = Some ''Sangamon'',
              info_timezone = ''America/Chicago'',
              info_population = Some 116250,
              info_elevation = None \<rparr>"
proof -
  let ?env = "example_env \<lparr> action = accept, data = Some \<lparr> selected_location_id = 2 \<rparr> \<rparr> (example_weather 95 62)"
  have h1: "search_locations example_config ?env ''Springfield'' 10 = Inr springfields"
    by (rule springfield_search)
  have h2: "1 < length springfields" by (simp add: springfields_def)
  have h4: "elicit ?env (message_of ''Springfield'' springfield_options)
              = \<lparr> action = accept, data = Some \<lparr> selected_location_id = 2 \<rparr> \<rparr>"
    by (simp add: example_env_def)
  have h5: "(1::int) \<le> 2" by simp
  have h6: "2 \<le> int (length (slice_to springfields (MAX_LOCATION_ELICITATION_OPTIONS example_config)))"
    by (simp add: slice_to_def example_config_def springfields_def)
  have second: "slice_to springfields (MAX_LOCATION_ELICITATION_OPTIONS example_config) ! nat (2 - 1)
                  = place 2 ''Springfield'' (Some ''Illinois'') (Some ''Sangamon'') (Some 116250)"
    by (simp add: slice_to_def example_config_def springfields_def)
  show ?thesis
    using resolve_location_selection [OF h1 h2 springfield_message h4 h5 h6]
    unfolding second
    by (simp add: place_def Let_def)
qed

text \<open>
  C2. With more than one candidate, when the exchange is declined, cancelled, accepted
  without a payload, or answered with a selection outside 1 .. length of the truncated
  list, \<open>resolve_location\<close> fails with one of the two selection errors (a \<open>ValueError\<close> in
  the source) and returns no location.
\<close>

theorem resolve_location_selection_error:
  assumes "search_locations cfg env location_name 10 = Inr locations"
    and "1 < length locations"
    and "elicitation_message cfg location_name locations = Inr message"
    and "action (elicit env message) = decline
         \<or> action (elicit env message) = cancel
         \<or> data (elicit env message) = None
         \<or> (\<exists>k. data (elicit env message) = Some \<lparr> selected_location_id = k \<rparr>
                \<and> (k < 1 \<or> int (length (slice_to locations (MAX_LOCATION_ELICITATION_OPTIONS cfg))) < k))"
  shows "fst (resolve_location cfg env location_name) =
           Inl (ValueError ''Location selection was cancelled or invalid.'')
         \<or> fst (resolve_location cfg env location_name) =
           Inl (ValueError ''Invalid location selection. Please choose a number from the list.'')"
proof -
  have "select_location cfg locations (elicit env message) =
           Inl (ValueError ''Location selection was cancelled or invalid.'')
        \<or> select_location cfg locations (elicit env message) =
           Inl (ValueError ''Invalid location selection. Please choose a number from the list.'')"
    using assms(4) by (auto simp: select_location_def Let_def split: option.splits)
  then show ?thesis
    using resolve_location_many [OF assms(1,2,3)] by simp
qed

theorem resolve_location_selection_error_witness:
  "fst (resolve_location example_config
          (example_env \<lparr> action = accept, data = Some \<lparr> selected_location_id = 6 \<rparr> \<rparr> (example_weather 95 62))
          ''Springfield'')
     = Inl (ValueError ''Invalid location selection. Please choose a number from the list.'')
   \<and> fst (resolve_location example_config
          (example_env \<lparr> action = decline, data = None \<rparr> (example_weather 95 62))
          ''Springfield'')
     = Inl (ValueError ''Location selection was cancelled or invalid.'')"
proof -
  let ?six = "example_env \<lparr> action = accept, data = Some \<lparr> selected_location_id = 6 \<rparr> \<rparr> (example_weather 95 62)"
  let ?no = "example_env \<lparr> action = decline, data = None \<rparr> (example_weather 95 62)"
  have h2: "1 < length springfields" by (simp add: springfields_def)
  have s6: "search_locations example_config ?six ''Springfield'' 10 = Inr springfields"
    by (rule springfield_search)
  have sno: "search_locations example_config ?no ''Springfield'' 10 = Inr springfields"
    by (rule springfield_search)
  have six: "data (elicit ?six (message_of ''Springfield'' springfield_options)) = Some \<lparr> selected_location_id = 6 \<rparr>
     \<and> (6 < (1::int) \<or> int (length (slice_to springfields (MAX_LOCATION_ELICITATION_OPTIONS example_config))) < 6)"
    by (simp add: example_env_def slice_to_def example_config_def springfields_def)
  have no: "action (elicit ?no (message_of ''Springfield'' springfield_options)) = decline"
    by (simp add: example_env_def)
  have a: "fst (resolve_location example_config ?six ''Springfield'')
             \<noteq> Inl (ValueError ''Location selection was cancelled or invalid.'')"
    using resolve_location_many [OF s6 h2 springfield_message]
    by (simp add: select_location_def example_env_def slice_to_def example_config_def springfields_def)
  have b: "fst (resolve_location example_config ?no ''Springfield'')
             \<noteq> Inl (ValueError ''Invalid location selection. Please choose a number from the list.'')"
    using resolve_location_many [OF sno h2 springfield_message]
    by (simp add: select_location_def example_env_def)
  show ?thesis
    using resolve_location_selection_error [OF s6 h2 springfield_message] six a
      resolve_location_selection_error [OF sno h2 springfield_message] no b
    by blast
qed

text \<open>
  C3. When the search returns no candidate, \<open>resolve_location\<close> fails with the not-found
  error (a \<open>ValueError\<close> in the source) whose message carries the query text, and the only
  call to the outside is the search: no interactive exchange is issued.
\<close>

theorem resolve_location_not_found:
  assumes "search_locations cfg env location_name 10 = Inr []"
  shows "resolve_location cfg env location_name =
           (Inl (ValueError (''No locations found for '' @ [CHR 0x27] @ location_name @ [CHR 0x27]
                             @ ''. Please try a different search term.'')),
            [Search location_name 10])
         \<and> (\<forall>message. Elicit message \<notin> set (snd (resolve_location cfg env location_name)))"
  using assms by (simp add: resolve_location_def not_found_message_def quote_def)

theorem resolve_location_not_found_witness:
  "resolve_location example_config
     (example_env \<lparr> action = cancel, data = None \<rparr> (example_weather 95 62)) ''Atlantis''
     = (Inl (ValueError (''No locations found for '' @ [CHR 0x27] @ ''Atlantis'' @ [CHR 0x27]
                             @ ''. Please try a different search term.'')),
        [Search ''Atlantis'' 10])"
proof -
  have h: "search_locations example_config
             (example_env \<lparr> action = cancel, data = None \<rparr> (example_weather 95 62)) ''Atlantis'' 10 = Inr []"
    by (simp add: search_locations_def example_env_def)
  show ?thesis using resolve_location_not_found [OF h] by simp
qed

text \<open>
  C4. When the search returns exactly one candidate, \<open>resolve_location\<close> returns that
  candidate as a \<open>LocationInfo\<close>, each field of the result being the candidate's (a
  missing country becoming the empty text), and the only call to the outside is the
  search: no interactive exchange is issued.
\<close>

theorem resolve_location_single:
  assumes "search_locations cfg env location_name 10 = Inr [loc]"
  shows "resolve_location cfg env location_name =
           (Inr \<lparr> info_id = loc_id loc,
                  info_name = loc_name loc,
                  info_latitude = loc_latitude loc,
                  info_longitude = loc_longitude loc,
                  info_country = (case loc_country loc of None \<Rightarrow> [] | Some c \<Rightarrow> c),
                  info_admin1 = loc_admin1 loc,
                  info_admin2 = loc_admin2 loc,
                  info_timezone = loc_timezone loc,
                  info_population = loc_population loc,
                  info_elevation = loc_elevation loc \<rparr>,
            [Search location_name 10])
         \<and> (\<forall>message. Elicit message \<notin> set (snd (resolve_location cfg env location_name)))"
  using assms by (simp add: resolve_location_def to_LocationInfo_def)

theorem resolve_location_single_witness:
  "resolve_location example_config
     (example_env \<lparr> action = cancel, data = None \<rparr> (example_weather 95 62)) ''Vancouver''
     = (Inr \<lparr> info_id = 6173331,
              info_name = ''Vancouver'',
              info_latitude = 49.25,
              info_longitude = -123.12,
              info_country = ''Canada'',
              info_admin1 = Some ''British Columbia'',
              info_admin2 = Some ''Metro Vancouver'',
              info_timezone = ''America/Vancouver'',
              info_population = Some 600000,
              info_elevation = Some 70 \<rparr>,
        [Search ''Vancouver'' 10])"
proof -
  have h: "search_locations example_config
             (example_env \<lparr> action = cancel, data = None \<rparr> (example_weather 95 62)) ''Vancouver'' 10
             = Inr [vancouver]"
    by (simp add: search_locations_def example_env_def)
  show ?thesis using resolve_location_single [OF h] by (simp add: vancouver_def)
qed



text \<open>
  C9. The one-line summary of a rendered candidate is, in this order: the position number,
  the name, the first-level admin name when present (and not empty), the second-level admin
  name only when present (and not empty) and different from the first-level one, the
  country, and the population only when present and not zero, written with thousands
  separators: the text \<open>fmt_thousands\<close> gives is the decimal numeral of the population
  with commas added.
\<close>

theorem option_text_summary:
  assumes "option_text i loc = Inr t"
  shows "(\<exists>country. loc_country loc = Some country \<and>
     t = str_nat (i + 1) @ ''. '' @ loc_name loc
         @ (case loc_admin1 loc of Some a \<Rightarrow> if a = [] then [] else '', '' @ a | None \<Rightarrow> [])
         @ (case loc_admin2 loc of
              Some b \<Rightarrow> if b = [] \<or> loc_admin2 loc = loc_admin1 loc then [] else '', '' @ b
            | None \<Rightarrow> [])
         @ '', '' @ country
         @ (case loc_population loc of
              Some p \<Rightarrow> if p = 0 then [] else '' (pop. '' @ fmt_thousands p @ '')''
            | None \<Rightarrow> []))
     \<and> (\<forall>p. filter (\<lambda>c. c \<noteq> CHR '','') (fmt_thousands p) = str_int p)"
  using option_text_shape [OF assms] fmt_thousands_digits by blast

theorem option_text_summary_witness:
  "option_text 2 (place 3 ''Springfield'' (Some ''Massachusetts'') (Some ''Hampden'') (Some 1234567))
     = Inr ''3. Springfield, Massachusetts, Hampden, United States (pop. 1,234,567)''
   \<and> option_text 4 (place 5 ''Springfield'' (Some ''Ohio'') (Some ''Ohio'') None)
     = Inr ''5. Springfield, Ohio, United States''
   \<and> filter (\<lambda>c. c \<noteq> CHR '','') (fmt_thousands 1234567) = str_int 1234567"
proof -
  have a: "option_text 2 (place 3 ''Springfield'' (Some ''Massachusetts'') (Some ''Hampden'') (Some 1234567))
     = Inr ''3. Springfield, Massachusetts, Hampden, United States (pop. 1,234,567)''"
    by (simp add: place_def render_simps)
  have b: "option_text 4 (place 5 ''Springfield'' (Some ''Ohio'') (Some ''Ohio'') None)
     = Inr ''5. Springfield, Ohio, United States''"
    by (simp add: place_def render_simps)
  show ?thesis
    using a b option_text_summary [OF a] by blast
qed

section \<open>Tool handlers: helper lemmas\<close>

lemma resolve_location_first_event:
  "\<exists>rest. snd (resolve_location cfg env location_name) = Search location_name 10 # rest"
  by (auto simp: resolve_location_def split: sum.splits list.splits)

lemma collect_length: "collect f ixs = Inr xs \<Longrightarrow> length xs = length ixs"
  by (induction ixs arbitrary: xs) (auto simp: bind_err_Inr_iff)

lemma shape_hourly_length:
  assumes "shape_hourly cfg env location forecast_hours weather_data = Inr r"
  shows "\<exists>hourly times. wd_hourly weather_data = Some hourly \<and> ser_time hourly = Some times
          \<and> length (hf_hourly_data r) = nat (min forecast_hours (int (length times)))"
proof -
  from assms obtain hourly times hourly_data where
    h: "wd_hourly weather_data = Some hourly" and t: "ser_time hourly = Some times"
    and c: "collect (hourly_point_at cfg hourly) [0..<nat (min forecast_hours (int (length times)))] = Inr hourly_data"
    and r: "hf_hourly_data r = hourly_data"
    by (auto simp: shape_hourly_def Let_def bind_err_Inr_iff get_key_Inr_iff)
  show ?thesis using h t r collect_length [OF c] by simp
qed

lemma shape_daily_length:
  assumes "shape_daily cfg env location weather_data = Inr r"
  shows "\<exists>daily times. wd_daily weather_data = Some daily \<and> ser_time daily = Some times
          \<and> length (wf_forecast_days r) = length times"
proof -
  from assms obtain daily daily_units times days where
    h: "wd_daily weather_data = Some daily" and t: "ser_time daily = Some times"
    and c: "collect (daily_forecast_at cfg daily daily_units) [0..<length times] = Inr days"
    and r: "wf_forecast_days r = days"
    by (auto simp: shape_daily_def Let_def bind_err_Inr_iff get_key_Inr_iff)
  show ?thesis using h t r collect_length [OF c] by simp
qed

lemma get_weather_forecast_clamped:
  "max 1 (min d (MAX_FORECAST_DAYS cfg)) = max 1 (min d' (MAX_FORECAST_DAYS cfg)) \<Longrightarrow>
   get_weather_forecast cfg env q d u = get_weather_forecast cfg env q d' u"
  by (auto simp: get_weather_forecast_def Let_def split: prod.splits sum.splits)

lemma get_hourly_forecast_clamped:
  "max 1 (min h (MAX_FORECAST_HOURS cfg)) = max 1 (min h' (MAX_FORECAST_HOURS cfg)) \<Longrightarrow>
   get_hourly_forecast cfg env q h u = get_hourly_forecast cfg env q h' u"
  by (auto simp: get_hourly_forecast_def Let_def split: prod.splits sum.splits)

lemma get_weather_forecast_request:
  "Fetch req \<in> set (snd (get_weather_forecast cfg env q d u)) \<Longrightarrow>
     req_forecast_days req = max 1 (min d (MAX_FORECAST_DAYS cfg))"
proof -
  assume a: "Fetch req \<in> set (snd (get_weather_forecast cfg env q d u))"
  have no: "Fetch req \<notin> set (snd (resolve_location cfg env q))"
    by (auto simp: resolve_location_def split: sum.splits list.splits)
  obtain r tr where rt: "resolve_location cfg env q = (r, tr)"
    by (cases "resolve_location cfg env q") auto
  show ?thesis
    using a no rt by (cases r) (auto simp: get_weather_forecast_def Let_def weather_request_of_def)
qed

lemma get_hourly_forecast_length:
  assumes "fst (get_hourly_forecast cfg env q h u) = Inr r"
  shows "int (length (hf_hourly_data r)) \<le> max 1 (min h (MAX_FORECAST_HOURS cfg))"
proof -
  obtain x tr where rt: "resolve_location cfg env q = (x, tr)"
    by (cases "resolve_location cfg env q") auto
  from assms rt obtain location wd where
    "shape_hourly cfg env location (max 1 (min h (MAX_FORECAST_HOURS cfg))) wd = Inr r"
    by (cases x) (auto simp: get_hourly_forecast_def Let_def bind_err_Inr_iff)
  from shape_hourly_length [OF this] show ?thesis by auto
qed

lemma vancouver_resolved:
  "resolve_location cfg (example_env answer weather) ''Vancouver''
     = (Inr (to_LocationInfo vancouver), [Search ''Vancouver'' 10])"
  by (simp add: resolve_location_def search_locations_def example_env_def)

lemma collect_total:
  "(\<And>i. i \<in> set ixs \<Longrightarrow> \<exists>x. f i = Inr x) \<Longrightarrow> \<exists>xs. collect f ixs = Inr xs"
proof (induction ixs)
  case Nil
  then show ?case by simp
next
  case (Cons i ixs)
  obtain x where x: "f i = Inr x" using Cons.prems [of i] by auto
  obtain xs where xs: "collect f ixs = Inr xs" using Cons.IH Cons.prems by auto
  show ?case using x xs by (simp add: bind_err_def)
qed

lemma example_daily_shape:
  assumes "example_weather code wind req = Inr wd"
  shows "\<exists>r. shape_daily cfg env location wd = Inr r
            \<and> length (wf_forecast_days r) = nat (req_forecast_days req)"
proof -
  let ?n = "nat (req_forecast_days req)"
  let ?daily = "\<lparr> ser_time = Some (replicate ?n ''2025-11-01''),
                   ser_values = (\<lambda>k. Some (replicate ?n 3)) \<rparr>"
  let ?units = "\<lambda>k :: string. Some ''unit''"
  have d: "wd_daily wd = Some ?daily" and u: "wd_daily_units wd = Some ?units"
    using assms by (auto simp: example_weather_def)
  have each: "\<exists>x. daily_forecast_at cfg ?daily ?units i = Inr x" if "i \<in> set [0..<?n]" for i
    using that
    by (simp add: daily_forecast_at_def time_at_def series_at_def py_index_def bind_err_def get_key_def)
  obtain days where days: "collect (daily_forecast_at cfg ?daily ?units) [0..<?n] = Inr days"
    using collect_total [of "[0..<?n]" "daily_forecast_at cfg ?daily ?units"] each by blast
  have "shape_daily cfg env location wd =
          Inr \<lparr> wf_location = location, wf_forecast_days = days, wf_generated_at = now_isoformat env \<rparr>"
    using d u days by (simp add: shape_daily_def bind_err_def get_key_def)
  then show ?thesis using collect_length [OF days] by simp
qed

lemma sixteen_days:
  "\<exists>r. fst (get_weather_forecast example_config
          (example_env \<lparr> action = cancel, data = None \<rparr> (example_weather 95 62))
          ''Vancouver'' 16 ''celsius'') = Inr r \<and> length (wf_forecast_days r) = 16"
proof -
  let ?env = "example_env \<lparr> action = cancel, data = None \<rparr> (example_weather 95 62)"
  let ?loc = "to_LocationInfo vancouver"
  let ?req = "weather_request_of ?loc None None (Some daily_params) 16 ''celsius''"
  have m: "MAX_FORECAST_DAYS example_config = 16" by (simp add: example_config_def)
  have run: "fst (get_weather_forecast example_config ?env ''Vancouver'' 16 ''celsius'')
               = bind_err (get_weather_data ?env ?req) (shape_daily example_config ?env ?loc)"
    by (simp add: get_weather_forecast_def vancouver_resolved Let_def m)
  obtain wd where wd: "example_weather 95 62 ?req = Inr wd"
    by (simp add: example_weather_def)
  have api: "get_weather_data ?env ?req = Inr wd"
    using wd by (simp add: get_weather_data_def example_env_def)
  have n: "nat (req_forecast_days ?req) = 16" by (simp add: weather_request_of_def)
  show ?thesis
    using example_daily_shape [OF wd, of example_config ?env ?loc] run api n
    by (simp add: bind_err_def)
qed

lemma collect_nth:
  "collect f ixs = Inr xs \<Longrightarrow> \<forall>i<length ixs. f (ixs ! i) = Inr (xs ! i)"
proof (induction ixs arbitrary: xs)
  case Nil
  then show ?case by simp
next
  case (Cons k ixs)
  from Cons.prems obtain y ys where y: "f k = Inr y" and ys: "collect f ixs = Inr ys"
    and xs: "xs = y # ys"
    by (auto simp: bind_err_Inr_iff)
  show ?case
  proof (intro allI impI)
    fix i assume "i < length (k # ixs)"
    then show "f ((k # ixs) ! i) = Inr (xs ! i)"
      using Cons.IH [OF ys] y xs by (cases i) auto
  qed
qed

lemma time_at_nth:
  "ser_time block = Some stamps \<Longrightarrow> time_at block i = Inr t \<Longrightarrow> i < length stamps \<and> t = stamps ! i"
  by (auto simp: time_at_def get_key_def bind_err_def py_index_def split: if_splits)

lemma hourly_point_time:
  "hourly_point_at cfg hourly i = Inr p \<Longrightarrow> time_at hourly i = Inr (hp_time p)"
  by (auto simp: hourly_point_at_def bind_err_Inr_iff)

lemma daily_forecast_date:
  "daily_forecast_at cfg daily daily_units i = Inr p \<Longrightarrow> time_at daily i = Inr (df_date p)"
  by (auto simp: daily_forecast_at_def bind_err_Inr_iff)

lemma shape_hourly_times:
  assumes "shape_hourly cfg env location forecast_hours weather_data = Inr r"
  shows "\<exists>hourly stamps. wd_hourly weather_data = Some hourly \<and> ser_time hourly = Some stamps
          \<and> length (hf_hourly_data r) = nat (min forecast_hours (int (length stamps)))
          \<and> map hp_time (hf_hourly_data r) = take (nat forecast_hours) stamps"
proof -
  from assms obtain hourly stamps points where
    h: "wd_hourly weather_data = Some hourly" and t: "ser_time hourly = Some stamps"
    and c: "collect (hourly_point_at cfg hourly) [0..<nat (min forecast_hours (int (length stamps)))] = Inr points"
    and r: "hf_hourly_data r = points"
    by (auto simp: shape_hourly_def Let_def bind_err_Inr_iff get_key_Inr_iff)
  let ?n = "nat (min forecast_hours (int (length stamps)))"
  have len: "length points = ?n" using collect_length [OF c] by simp
  have each: "hp_time (points ! i) = stamps ! i" if "i < ?n" for i
  proof -
    have "hourly_point_at cfg hourly i = Inr (points ! i)"
      using collect_nth [OF c] that by simp
    then have "time_at hourly i = Inr (hp_time (points ! i))" by (rule hourly_point_time)
    then show ?thesis using time_at_nth [OF t] by simp
  qed
  have "map hp_time points = take (nat forecast_hours) stamps"
  proof (rule nth_equalityI)
    show "length (map hp_time points) = length (take (nat forecast_hours) stamps)"
      using len by simp
  next
    fix i assume "i < length (map hp_time points)"
    then have i: "i < ?n" using len by simp
    then show "map hp_time points ! i = take (nat forecast_hours) stamps ! i"
      using each [OF i] len by simp
  qed
  then show ?thesis using h t len r by simp
qed

lemma shape_daily_dates:
  assumes "shape_daily cfg env location weather_data = Inr r"
  shows "\<exists>daily stamps. wd_daily weather_data = Some daily \<and> ser_time daily = Some stamps
          \<and> length (wf_forecast_days r) = length stamps
          \<and> map df_date (wf_forecast_days r) = stamps"
proof -
  from assms obtain daily daily_units stamps entries where
    h: "wd_daily weather_data = Some daily" and t: "ser_time daily = Some stamps"
    and c: "collect (daily_forecast_at cfg daily daily_units) [0..<length stamps] = Inr entries"
    and r: "wf_forecast_days r = entries"
    by (auto simp: shape_daily_def Let_def bind_err_Inr_iff get_key_Inr_iff)
  have len: "length entries = length stamps" using collect_length [OF c] by simp
  have each: "df_date (entries ! i) = stamps ! i" if "i < length stamps" for i
  proof -
    have "daily_forecast_at cfg daily daily_units i = Inr (entries ! i)"
      using collect_nth [OF c] that by simp
    then have "time_at daily i = Inr (df_date (entries ! i))" by (rule daily_forecast_date)
    then show ?thesis using time_at_nth [OF t] by simp
  qed
  have "map df_date entries = stamps"
  proof (rule nth_equalityI)
    show "length (map df_date entries) = length stamps" using len by simp
  next
    fix i assume "i < length (map df_date entries)"
    then have i: "i < length stamps" using len by simp
    then show "map df_date entries ! i = stamps ! i"
      using each [OF i] len by simp
  qed
  then show ?thesis using h t len r by simp
qed

lemma get_weather_forecast_run:
  assumes "resolve_location cfg env q = (Inr location, tr0)"
  shows "get_weather_forecast cfg env q d u =
           (bind_err (get_weather_data env
                        (weather_request_of location None None (Some daily_params)
                           (max 1 (min d (MAX_FORECAST_DAYS cfg))) u))
              (shape_daily cfg env location),
            tr0 @ [Fetch (weather_request_of location None None (Some daily_params)
                            (max 1 (min d (MAX_FORECAST_DAYS cfg))) u)])"
  using assms by (simp add: get_weather_forecast_def Let_def)

lemma get_hourly_forecast_run:
  assumes "resolve_location cfg env q = (Inr location, tr0)"
  shows "get_hourly_forecast cfg env q h u =
           (bind_err (get_weather_data env
                        (weather_request_of location None (Some hourly_params) None 7 u))
              (shape_hourly cfg env location (max 1 (min h (MAX_FORECAST_HOURS cfg)))),
            tr0 @ [Fetch (weather_request_of location None (Some hourly_params) None 7 u)])"
  using assms by (simp add: get_hourly_forecast_def Let_def)

lemma get_weather_forecast_days:
  assumes "fst (get_weather_forecast cfg env q d u) = Inr r"
  shows "\<exists>location tr0 weather_data daily stamps.
           resolve_location cfg env q = (Inr location, tr0)
         \<and> get_weather_data env (weather_request_of location None None (Some daily_params)
                                     (max 1 (min d (MAX_FORECAST_DAYS cfg))) u) = Inr weather_data
         \<and> wd_daily weather_data = Some daily \<and> ser_time daily = Some stamps
         \<and> length (wf_forecast_days r) = length stamps
         \<and> map df_date (wf_forecast_days r) = stamps"
proof -
  obtain x tr0 where rt: "resolve_location cfg env q = (x, tr0)"
    by (cases "resolve_location cfg env q") auto
  from assms rt obtain location where loc: "x = Inr location"
    by (cases x) (auto simp: get_weather_forecast_def)
  let ?req = "weather_request_of location None None (Some daily_params)
                (max 1 (min d (MAX_FORECAST_DAYS cfg))) u"
  have res: "resolve_location cfg env q = (Inr location, tr0)" using rt loc by simp
  from assms obtain weather_data where api: "get_weather_data env ?req = Inr weather_data"
    and sh: "shape_daily cfg env location weather_data = Inr r"
    unfolding get_weather_forecast_run [OF res] by (auto simp: bind_err_Inr_iff)
  from shape_daily_dates [OF sh] obtain daily stamps where
    f: "wd_daily weather_data = Some daily" "ser_time daily = Some stamps"
       "length (wf_forecast_days r) = length stamps" "map df_date (wf_forecast_days r) = stamps"
    by (elim exE conjE)
  have "resolve_location cfg env q = (Inr location, tr0)
         \<and> get_weather_data env ?req = Inr weather_data
         \<and> wd_daily weather_data = Some daily \<and> ser_time daily = Some stamps
         \<and> length (wf_forecast_days r) = length stamps
         \<and> map df_date (wf_forecast_days r) = stamps"
    using res api f by (intro conjI)
  then show ?thesis by (intro exI)
qed

lemma get_hourly_forecast_hours:
  assumes "fst (get_hourly_forecast cfg env q h u) = Inr r"
  shows "\<exists>location tr0 weather_data hourly stamps.
           resolve_location cfg env q = (Inr location, tr0)
         \<and> get_weather_data env (weather_request_of location None (Some hourly_params) None 7 u)
              = Inr weather_data
         \<and> wd_hourly weather_data = Some hourly \<and> ser_time hourly = Some stamps
         \<and> length (hf_hourly_data r)
              = nat (min (max 1 (min h (MAX_FORECAST_HOURS cfg))) (int (length stamps)))
         \<and> map hp_time (hf_hourly_data r)
              = take (nat (max 1 (min h (MAX_FORECAST_HOURS cfg)))) stamps"
proof -
  obtain x tr0 where rt: "resolve_location cfg env q = (x, tr0)"
    by (cases "resolve_location cfg env q") auto
  from assms rt obtain location where loc: "x = Inr location"
    by (cases x) (auto simp: get_hourly_forecast_def)
  let ?req = "weather_request_of location None (Some hourly_params) None 7 u"
  let ?n = "max 1 (min h (MAX_FORECAST_HOURS cfg))"
  have res: "resolve_location cfg env q = (Inr location, tr0)" using rt loc by simp
  from assms obtain weather_data where api: "get_weather_data env ?req = Inr weather_data"
    and sh: "shape_hourly cfg env location ?n weather_data = Inr r"
    unfolding get_hourly_forecast_run [OF res] by (auto simp: bind_err_Inr_iff)
  from shape_hourly_times [OF sh] obtain hourly stamps where
    f: "wd_hourly weather_data = Some hourly" "ser_time hourly = Some stamps"
       "length (hf_hourly_data r) = nat (min ?n (int (length stamps)))"
       "map hp_time (hf_hourly_data r) = take (nat ?n) stamps"
    by (elim exE conjE)
  have "resolve_location cfg env q = (Inr location, tr0)
         \<and> get_weather_data env ?req = Inr weather_data
         \<and> wd_hourly weather_data = Some hourly \<and> ser_time hourly = Some stamps
         \<and> length (hf_hourly_data r) = nat (min ?n (int (length stamps)))
         \<and> map hp_time (hf_hourly_data r) = take (nat ?n) stamps"
    using res api f by (intro conjI)
  then show ?thesis by (intro exI)
qed

lemma example_hourly_shape:
  assumes "example_weather code wind req = Inr wd"
  shows "\<exists>r. shape_hourly cfg env location forecast_hours wd = Inr r"
proof -
  let ?n = "nat (min forecast_hours (int (length [''2025-11-01T13:00'', ''2025-11-01T14:00'', ''2025-11-01T15:00''])))"
  let ?units = "\<lambda>k :: string. Some ''unit''"
  have d: "wd_hourly wd = Some example_hourly" and u: "wd_hourly_units wd = Some ?units"
    using assms by (auto simp: example_weather_def)
  have t: "ser_time example_hourly = Some [''2025-11-01T13:00'', ''2025-11-01T14:00'', ''2025-11-01T15:00'']"
    by (simp add: example_hourly_def)
  have each: "\<exists>x. hourly_point_at cfg example_hourly i = Inr x" if "i \<in> set [0..<?n]" for i
  proof -
    have "i < 3" using that by simp
    then show ?thesis
      by (simp add: hourly_point_at_def time_at_def series_at_def py_index_def bind_err_def
          get_key_def example_hourly_def)
  qed
  obtain points where points: "collect (hourly_point_at cfg example_hourly) [0..<?n] = Inr points"
    using collect_total [of "[0..<?n]" "hourly_point_at cfg example_hourly"] each by blast
  have "shape_hourly cfg env location forecast_hours wd =
          Inr \<lparr> hf_location = location, hf_hourly_data = points,
                hf_temperature_unit = ''unit'', hf_precipitation_unit = ''unit'',
                hf_wind_speed_unit = ''unit'', hf_generated_at = now_isoformat env \<rparr>"
    using d u t points by (simp add: shape_hourly_def bind_err_def get_key_def Let_def)
  then show ?thesis by (rule exI)
qed

lemma two_hours:
  "\<exists>r. fst (get_hourly_forecast (example_config \<lparr> MAX_FORECAST_HOURS := 2 \<rparr>)
          (example_env \<lparr> action = cancel, data = None \<rparr> (example_weather 95 62))
          ''Vancouver'' 2 ''celsius'') = Inr r"
proof -
  let ?cfg = "example_config \<lparr> MAX_FORECAST_HOURS := 2 \<rparr>"
  let ?env = "example_env \<lparr> action = cancel, data = None \<rparr> (example_weather 95 62)"
  let ?loc = "to_LocationInfo vancouver"
  let ?req = "weather_request_of ?loc None (Some hourly_params) None 7 ''celsius''"
  have res: "resolve_location ?cfg ?env ''Vancouver'' = (Inr ?loc, [Search ''Vancouver'' 10])"
    by (rule vancouver_resolved)
  obtain wd where wd: "example_weather 95 62 ?req = Inr wd"
    by (simp add: example_weather_def)
  have api: "get_weather_data ?env ?req = Inr wd"
    using wd by (simp add: get_weather_data_def example_env_def)
  obtain r where "shape_hourly ?cfg ?env ?loc (max 1 (min 2 (MAX_FORECAST_HOURS ?cfg))) wd = Inr r"
    using example_hourly_shape [OF wd] by blast
  then have "fst (get_hourly_forecast ?cfg ?env ''Vancouver'' 2 ''celsius'') = Inr r"
    unfolding get_hourly_forecast_run [OF res] using api by (simp add: bind_err_def)
  then show ?thesis by (rule exI)
qed

lemma upcoming_scan_cases:
  "upcoming_scan cfg hourly alerts ixs = Inr res \<Longrightarrow>
     res = alerts \<or>
     (\<not> list_ex (\<lambda>alert. alert_type alert = ''severe_weather'') alerts \<and>
      (\<exists>pre i post t c. ixs = pre @ i # post
         \<and> series_at hourly ''weather_code'' i = Inr c \<and> c \<in> SEVERE_WEATHER_CODES cfg
         \<and> time_at hourly i = Inr t \<and> res = alerts @ [incoming_alert t]
         \<and> (\<forall>j\<in>set pre. \<exists>c'. series_at hourly ''weather_code'' j = Inr c' \<and> c' \<notin> SEVERE_WEATHER_CODES cfg)))"
proof (induction ixs)
  case Nil
  then show ?case by simp
next
  case (Cons i ixs)
  let ?sev = "list_ex (\<lambda>alert. alert_type alert = ''severe_weather'') alerts"
  let ?code = "\<lambda>j. series_at hourly ''weather_code'' j"
  from Cons.prems obtain c where c: "?code i = Inr c"
    by (auto simp: bind_err_Inr_iff)
  show ?case
  proof (cases "c \<in> SEVERE_WEATHER_CODES cfg \<and> \<not> ?sev")
    case True
    with Cons.prems c obtain t where t: "time_at hourly i = Inr t" and res: "res = alerts @ [incoming_alert t]"
      by (auto simp: bind_err_def split: sum.splits)
    have "i # ixs = [] @ i # ixs \<and> ?code i = Inr c \<and> c \<in> SEVERE_WEATHER_CODES cfg
          \<and> time_at hourly i = Inr t \<and> res = alerts @ [incoming_alert t]
          \<and> (\<forall>j\<in>set []. \<exists>c'. ?code j = Inr c' \<and> c' \<notin> SEVERE_WEATHER_CODES cfg)"
      using True c t res by simp
    then have "\<exists>pre k post t c. i # ixs = pre @ k # post \<and> ?code k = Inr c \<and> c \<in> SEVERE_WEATHER_CODES cfg
          \<and> time_at hourly k = Inr t \<and> res = alerts @ [incoming_alert t]
          \<and> (\<forall>j\<in>set pre. \<exists>c'. ?code j = Inr c' \<and> c' \<notin> SEVERE_WEATHER_CODES cfg)"
      by (intro exI)
    then show ?thesis using True by (intro disjI2 conjI) simp_all
  next
    case False
    with Cons.prems c have rest: "upcoming_scan cfg hourly alerts ixs = Inr res"
      by (auto simp: bind_err_def)
    from Cons.IH [OF rest] show ?thesis
    proof
      assume "res = alerts" then show ?thesis by (intro disjI1)
    next
      assume r: "\<not> ?sev \<and>
        (\<exists>pre i post t c. ixs = pre @ i # post
           \<and> ?code i = Inr c \<and> c \<in> SEVERE_WEATHER_CODES cfg
           \<and> time_at hourly i = Inr t \<and> res = alerts @ [incoming_alert t]
           \<and> (\<forall>j\<in>set pre. \<exists>c'. ?code j = Inr c' \<and> c' \<notin> SEVERE_WEATHER_CODES cfg))"
      then have nosev: "\<not> ?sev" by (rule conjunct1)
      from r obtain pre k post t d where p: "ixs = pre @ k # post"
        "?code k = Inr d" "d \<in> SEVERE_WEATHER_CODES cfg"
        "time_at hourly k = Inr t" "res = alerts @ [incoming_alert t]"
        "\<forall>j\<in>set pre. \<exists>c'. ?code j = Inr c' \<and> c' \<notin> SEVERE_WEATHER_CODES cfg"
        by (elim conjE exE)
      have notsev: "c \<notin> SEVERE_WEATHER_CODES cfg" using False nosev by simp
      have "i # ixs = (i # pre) @ k # post \<and> ?code k = Inr d \<and> d \<in> SEVERE_WEATHER_CODES cfg
          \<and> time_at hourly k = Inr t \<and> res = alerts @ [incoming_alert t]
          \<and> (\<forall>j\<in>set (i # pre). \<exists>c'. ?code j = Inr c' \<and> c' \<notin> SEVERE_WEATHER_CODES cfg)"
        using p c notsev by simp
      then have "\<exists>pre k post t c. i # ixs = pre @ k # post \<and> ?code k = Inr c \<and> c \<in> SEVERE_WEATHER_CODES cfg
          \<and> time_at hourly k = Inr t \<and> res = alerts @ [incoming_alert t]
          \<and> (\<forall>j\<in>set pre. \<exists>c'. ?code j = Inr c' \<and> c' \<notin> SEVERE_WEATHER_CODES cfg)"
        by (intro exI)
      then show ?thesis using nosev by (intro disjI2 conjI)
    qed
  qed
qed

lemma upt_split:
  assumes "[0..<n] = pre @ i # post"
  shows "i < n \<and> set pre = {0..<i}"
proof -
  have len: "length pre < n"
    using arg_cong [OF assms, of length] by simp
  have "[0..<n] ! length pre = i" using assms by simp
  then have i: "i = length pre" using len by simp
  have "pre = take (length pre) [0..<n]" using assms by simp
  then have "pre = [0..<length pre]" using len by simp
  then have "set pre = {0..<length pre}" by (metis atLeastLessThan_upt)
  then show ?thesis using i len by simp
qed

lemma upcoming_scan_hours:
  assumes "upcoming_scan cfg hourly alerts [0..<n] = Inr res"
  shows "res = alerts \<or>
     (\<not> list_ex (\<lambda>alert. alert_type alert = ''severe_weather'') alerts \<and>
      (\<exists>i t c. i < n
         \<and> series_at hourly ''weather_code'' i = Inr c \<and> c \<in> SEVERE_WEATHER_CODES cfg
         \<and> time_at hourly i = Inr t \<and> res = alerts @ [incoming_alert t]
         \<and> (\<forall>j<i. \<exists>c'. series_at hourly ''weather_code'' j = Inr c' \<and> c' \<notin> SEVERE_WEATHER_CODES cfg)))"
proof -
  let ?code = "\<lambda>j. series_at hourly ''weather_code'' j"
  from upcoming_scan_cases [OF assms] show ?thesis
  proof
    assume "res = alerts" then show ?thesis by (intro disjI1)
  next
    assume r: "\<not> list_ex (\<lambda>alert. alert_type alert = ''severe_weather'') alerts \<and>
      (\<exists>pre i post t c. [0..<n] = pre @ i # post
         \<and> ?code i = Inr c \<and> c \<in> SEVERE_WEATHER_CODES cfg
         \<and> time_at hourly i = Inr t \<and> res = alerts @ [incoming_alert t]
         \<and> (\<forall>j\<in>set pre. \<exists>c'. ?code j = Inr c' \<and> c' \<notin> SEVERE_WEATHER_CODES cfg))"
    then have nosev: "\<not> list_ex (\<lambda>alert. alert_type alert = ''severe_weather'') alerts"
      by (rule conjunct1)
    from r obtain pre i post t c where p: "[0..<n] = pre @ i # post"
        "?code i = Inr c" "c \<in> SEVERE_WEATHER_CODES cfg"
        "time_at hourly i = Inr t" "res = alerts @ [incoming_alert t]"
        "\<forall>j\<in>set pre. \<exists>c'. ?code j = Inr c' \<and> c' \<notin> SEVERE_WEATHER_CODES cfg"
      by (elim conjE exE)
    from upt_split [OF p(1)] have i: "i < n" and pre: "set pre = {0..<i}" by simp_all
    have first: "\<forall>j<i. \<exists>c'. ?code j = Inr c' \<and> c' \<notin> SEVERE_WEATHER_CODES cfg"
      using p(6) pre by simp
    have "i < n \<and> ?code i = Inr c \<and> c \<in> SEVERE_WEATHER_CODES cfg
         \<and> time_at hourly i = Inr t \<and> res = alerts @ [incoming_alert t]
         \<and> (\<forall>j<i. \<exists>c'. ?code j = Inr c' \<and> c' \<notin> SEVERE_WEATHER_CODES cfg)"
      using i p(2-5) first by (intro conjI)
    then have "\<exists>i t c. i < n \<and> ?code i = Inr c \<and> c \<in> SEVERE_WEATHER_CODES cfg
         \<and> time_at hourly i = Inr t \<and> res = alerts @ [incoming_alert t]
         \<and> (\<forall>j<i. \<exists>c'. ?code j = Inr c' \<and> c' \<notin> SEVERE_WEATHER_CODES cfg)"
      by (intro exI)
    then show ?thesis using nosev by (intro disjI2 conjI)
  qed
qed

lemma get_weather_alerts_built:
  assumes "get_weather_alerts cfg env location_name = (Inr r, tr)"
  shows "\<exists>location tr0 weather_data.
          resolve_location cfg env location_name = (Inr location, tr0)
        \<and> get_weather_data env (weather_request_of location (Some alerts_current_params)
              (Some alerts_hourly_params) None 2 ''celsius'') = Inr weather_data
        \<and> build_alerts cfg env weather_data = Inr (ar_alerts r)
        \<and> ar_alert_count r = length (ar_alerts r)"
proof -
  obtain x tr0 where rt: "resolve_location cfg env location_name = (x, tr0)"
    by (cases "resolve_location cfg env location_name") auto
  show ?thesis
    using assms rt
    by (cases x) (auto simp: get_weather_alerts_def Let_def bind_err_Inr_iff)
qed

lemma build_alerts_scan:
  assumes "build_alerts cfg env weather_data = Inr alerts"
  shows "\<exists>current hourly code wind hours.
           wd_current weather_data = Some current \<and> wd_hourly weather_data = Some hourly
         \<and> cur_values current ''weather_code'' = Some code
         \<and> cur_values current ''wind_speed_10m'' = Some wind
         \<and> ser_time hourly = Some hours
         \<and> upcoming_scan cfg hourly (code_alerts cfg code @ wind_alerts cfg env wind)
              [0..<min 24 (length hours)] = Inr alerts"
  using assms by (auto simp: build_alerts_def bind_err_Inr_iff get_key_Inr_iff)

lemma base_severe_count:
  "length (filter (\<lambda>a. alert_type a = ''severe_weather'') (code_alerts cfg code @ wind_alerts cfg env wind)) \<le> 1"
  by (simp add: code_alerts_def wind_alerts_def)

lemma list_ex_filter_nil: "\<not> list_ex P xs \<Longrightarrow> filter P xs = []"
  by (induction xs) auto







lemma vancouver_alerts_run:
  "get_weather_alerts example_config (example_env answer (example_weather code wind)) ''Vancouver''
     = (bind_err (example_weather code wind
                    (weather_request_of (to_LocationInfo vancouver) (Some alerts_current_params)
                       (Some alerts_hourly_params) None 2 ''celsius''))
          (\<lambda>weather_data.
             bind_err (build_alerts example_config (example_env answer (example_weather code wind)) weather_data)
               (\<lambda>alerts. Inr \<lparr> ar_location = to_LocationInfo vancouver, ar_alerts = alerts,
                                ar_alert_count = length alerts,
                                ar_checked_at = ''2025-11-01T12:00:00'' \<rparr>)),
        [Search ''Vancouver'' 10,
         Fetch (weather_request_of (to_LocationInfo vancouver) (Some alerts_current_params)
                  (Some alerts_hourly_params) None 2 ''celsius'')])"
  unfolding get_weather_alerts_def vancouver_resolved
  by (simp add: Let_def get_weather_data_def example_env_def)


lemma clear_run:
  "fst (get_weather_alerts example_config
          (example_env \<lparr> action = cancel, data = None \<rparr> (example_weather 3 20)) ''Vancouver'')
     = Inr clear_result"
  unfolding vancouver_alerts_run
  by (simp add: example_weather_def example_current_def example_hourly_def build_alerts_def bind_err_def get_key_def
      code_alerts_def wind_alerts_def example_config_def example_env_def series_at_def time_at_def
      py_index_def clear_result_def incoming_alert_def)

section \<open>Tool handlers: input constraints\<close>

text \<open>
  C6, as amended. Only \<open>search_locations_tool\<close> validates the length of the location
  name: a name whose stripped length is below 2 is rejected with a \<open>ValueError\<close> before
  any search, and a longer one is searched with the limit clamped to 1..10. The handlers
  \<open>get_current_weather\<close>, \<open>get_weather_forecast\<close>, \<open>get_hourly_forecast\<close> and
  \<open>get_weather_alerts\<close> make no length check: whatever the name, their first call to the
  outside is the resolver's search for it.
\<close>

theorem query_length_validation:
  "(length (strip location_name) < 2 \<longrightarrow>
      search_locations_tool cfg env location_name limit =
        (Inl (ValueError ''Location name must be at least 2 characters long.''), []))
   \<and> (2 \<le> length (strip location_name) \<longrightarrow>
      snd (search_locations_tool cfg env location_name limit) =
        [Search location_name (max 1 (min limit 10))])
   \<and> (\<exists>rest. snd (get_current_weather cfg env location_name temperature_unit) = Search location_name 10 # rest)
   \<and> (\<exists>rest. snd (get_weather_forecast cfg env location_name forecast_days temperature_unit) = Search location_name 10 # rest)
   \<and> (\<exists>rest. snd (get_hourly_forecast cfg env location_name forecast_hours temperature_unit) = Search location_name 10 # rest)
   \<and> (\<exists>rest. snd (get_weather_alerts cfg env location_name) = Search location_name 10 # rest)"
proof -
  obtain r tr where rt: "resolve_location cfg env location_name = (r, Search location_name 10 # tr)"
    using resolve_location_first_event [of cfg env location_name]
    by (cases "resolve_location cfg env location_name") auto
  have a: "length (strip location_name) < 2 \<longrightarrow>
      search_locations_tool cfg env location_name limit =
        (Inl (ValueError ''Location name must be at least 2 characters long.''), [])"
    by (simp add: search_locations_tool_def)
  have b: "2 \<le> length (strip location_name) \<longrightarrow>
      snd (search_locations_tool cfg env location_name limit) =
        [Search location_name (max 1 (min limit 10))]"
    by (auto simp: search_locations_tool_def Let_def split: sum.splits)
  have c: "\<exists>rest. snd (get_current_weather cfg env location_name temperature_unit) = Search location_name 10 # rest"
    using rt by (cases r) (simp_all add: get_current_weather_def Let_def)
  have d: "\<exists>rest. snd (get_weather_forecast cfg env location_name forecast_days temperature_unit) = Search location_name 10 # rest"
    using rt by (cases r) (simp_all add: get_weather_forecast_def Let_def)
  have e: "\<exists>rest. snd (get_hourly_forecast cfg env location_name forecast_hours temperature_unit) = Search location_name 10 # rest"
    using rt by (cases r) (simp_all add: get_hourly_forecast_def Let_def)
  have f: "\<exists>rest. snd (get_weather_alerts cfg env location_name) = Search location_name 10 # rest"
    using rt by (cases r) (simp_all add: get_weather_alerts_def Let_def)
  show ?thesis using a b c d e f by blast
qed

theorem query_length_validation_witness:
  "search_locations_tool example_config
     (example_env \<lparr> action = cancel, data = None \<rparr> (example_weather 95 62)) '' a '' 5
     = (Inl (ValueError ''Location name must be at least 2 characters long.''), [])
   \<and> snd (search_locations_tool example_config
     (example_env \<lparr> action = cancel, data = None \<rparr> (example_weather 95 62)) ''Vancouver'' 50)
     = [Search ''Vancouver'' 10]"
proof -
  have short: "length (strip '' a '') < 2" by (simp add: strip_def is_space_def)
  have long: "2 \<le> length (strip ''Vancouver'')" by (simp add: strip_def is_space_def)
  show ?thesis
    using query_length_validation [of "'' a ''" example_config
        "example_env \<lparr> action = cancel, data = None \<rparr> (example_weather 95 62)" 5] short
      query_length_validation [of "''Vancouver''" example_config
        "example_env \<lparr> action = cancel, data = None \<rparr> (example_weather 95 62)" 50] long
    by simp
qed


text \<open>
  The claim as first stated fails: \<open>get_current_weather\<close> given the one-character name
  \<open>a\<close> goes on to search for it, and fails only because nothing is found.
\<close>

theorem query_length_counterexample:
  "length (strip ''a'') < 2
   \<and> get_current_weather example_config
         (example_env \<lparr> action = cancel, data = None \<rparr> (example_weather 95 62)) ''a'' ''celsius''
       = (Inl (ValueError (''No locations found for '' @ [CHR 0x27] @ ''a'' @ [CHR 0x27]
                             @ ''. Please try a different search term.'')),
          [Search ''a'' 10])"
  by (simp add: strip_def is_space_def get_current_weather_def resolve_location_def
      search_locations_def example_env_def not_found_message_def quote_def)


text \<open>
  C7. The day count of \<open>get_weather_forecast\<close> and the hour count of
  \<open>get_hourly_forecast\<close> are clamped, not rejected. A value above the maximum gives exactly
  the outcome of the maximum, and a value below 1 the outcome of 1. Once the location is
  resolved, the daily handler asks the forecast service for the clamped number of days and
  returns one entry per day of the answer; the hourly handler asks for its fixed seven days
  and returns exactly the first clamped-count hours of the answer (all of them when the
  answer is shorter). The clamped value lies between 1 and the maximum when the maximum is
  at least 1.
\<close>

theorem forecast_counts_clamped:
  "(MAX_FORECAST_DAYS cfg < d \<longrightarrow>
      get_weather_forecast cfg env q d u = get_weather_forecast cfg env q (MAX_FORECAST_DAYS cfg) u)
   \<and> (d < 1 \<longrightarrow> get_weather_forecast cfg env q d u = get_weather_forecast cfg env q 1 u)
   \<and> (MAX_FORECAST_HOURS cfg < h \<longrightarrow>
      get_hourly_forecast cfg env q h u = get_hourly_forecast cfg env q (MAX_FORECAST_HOURS cfg) u)
   \<and> (h < 1 \<longrightarrow> get_hourly_forecast cfg env q h u = get_hourly_forecast cfg env q 1 u)
   \<and> (\<forall>location tr0. resolve_location cfg env q = (Inr location, tr0) \<longrightarrow>
         snd (get_weather_forecast cfg env q d u) =
           tr0 @ [Fetch \<lparr> req_latitude = info_latitude location,
                           req_longitude = info_longitude location,
                           req_current = None, req_hourly = None,
                           req_daily = Some daily_params,
                           req_forecast_days = max 1 (min d (MAX_FORECAST_DAYS cfg)),
                           req_temperature_unit = u,
                           req_wind_speed_unit = ''kmh'',
                           req_precipitation_unit = ''mm'' \<rparr>]
       \<and> snd (get_hourly_forecast cfg env q h u) =
           tr0 @ [Fetch \<lparr> req_latitude = info_latitude location,
                           req_longitude = info_longitude location,
                           req_current = None, req_hourly = Some hourly_params,
                           req_daily = None,
                           req_forecast_days = 7,
                           req_temperature_unit = u,
                           req_wind_speed_unit = ''kmh'',
                           req_precipitation_unit = ''mm'' \<rparr>])
   \<and> (\<forall>r. fst (get_weather_forecast cfg env q d u) = Inr r \<longrightarrow>
         (\<exists>location tr0 weather_data daily stamps.
             resolve_location cfg env q = (Inr location, tr0)
           \<and> get_weather_data env (weather_request_of location None None (Some daily_params)
                                       (max 1 (min d (MAX_FORECAST_DAYS cfg))) u) = Inr weather_data
           \<and> wd_daily weather_data = Some daily \<and> ser_time daily = Some stamps
           \<and> length (wf_forecast_days r) = length stamps
           \<and> map df_date (wf_forecast_days r) = stamps))
   \<and> (\<forall>r. fst (get_hourly_forecast cfg env q h u) = Inr r \<longrightarrow>
         (\<exists>location tr0 weather_data hourly stamps.
             resolve_location cfg env q = (Inr location, tr0)
           \<and> get_weather_data env (weather_request_of location None (Some hourly_params) None 7 u)
                = Inr weather_data
           \<and> wd_hourly weather_data = Some hourly \<and> ser_time hourly = Some stamps
           \<and> length (hf_hourly_data r)
                = nat (min (max 1 (min h (MAX_FORECAST_HOURS cfg))) (int (length stamps)))
           \<and> map hp_time (hf_hourly_data r)
                = take (nat (max 1 (min h (MAX_FORECAST_HOURS cfg)))) stamps))
   \<and> (1 \<le> MAX_FORECAST_DAYS cfg \<longrightarrow>
        1 \<le> max 1 (min d (MAX_FORECAST_DAYS cfg)) \<and> max 1 (min d (MAX_FORECAST_DAYS cfg)) \<le> MAX_FORECAST_DAYS cfg)
   \<and> (1 \<le> MAX_FORECAST_HOURS cfg \<longrightarrow>
        1 \<le> max 1 (min h (MAX_FORECAST_HOURS cfg)) \<and> max 1 (min h (MAX_FORECAST_HOURS cfg)) \<le> MAX_FORECAST_HOURS cfg)"
  (is "?A \<and> ?B \<and> ?C \<and> ?D \<and> ?E \<and> ?F \<and> ?G \<and> ?H \<and> ?I")
proof -
  have a: ?A by (auto intro!: get_weather_forecast_clamped)
  have b: ?B by (auto intro!: get_weather_forecast_clamped)
  have c: ?C by (auto intro!: get_hourly_forecast_clamped)
  have d: ?D by (auto intro!: get_hourly_forecast_clamped)
  have e: ?E
  proof (intro allI impI)
    fix location tr0 assume res: "resolve_location cfg env q = (Inr location, tr0)"
    show "snd (get_weather_forecast cfg env q d u) =
           tr0 @ [Fetch \<lparr> req_latitude = info_latitude location,
                           req_longitude = info_longitude location,
                           req_current = None, req_hourly = None,
                           req_daily = Some daily_params,
                           req_forecast_days = max 1 (min d (MAX_FORECAST_DAYS cfg)),
                           req_temperature_unit = u,
                           req_wind_speed_unit = ''kmh'',
                           req_precipitation_unit = ''mm'' \<rparr>]
       \<and> snd (get_hourly_forecast cfg env q h u) =
           tr0 @ [Fetch \<lparr> req_latitude = info_latitude location,
                           req_longitude = info_longitude location,
                           req_current = None, req_hourly = Some hourly_params,
                           req_daily = None,
                           req_forecast_days = 7,
                           req_temperature_unit = u,
                           req_wind_speed_unit = ''kmh'',
                           req_precipitation_unit = ''mm'' \<rparr>]"
      unfolding get_weather_forecast_run [OF res] get_hourly_forecast_run [OF res]
      by (simp add: weather_request_of_def)
  qed
  have f: ?F by (intro allI impI) (rule get_weather_forecast_days)
  have g: ?G by (intro allI impI) (rule get_hourly_forecast_hours)
  have h: ?H by simp
  have i: ?I by simp
  show ?thesis using a b c d e f g h i by (intro conjI)
qed

theorem forecast_counts_clamped_witness:
  "(\<exists>r. fst (get_weather_forecast example_config
          (example_env \<lparr> action = cancel, data = None \<rparr> (example_weather 95 62))
          ''Vancouver'' 30 ''celsius'') = Inr r \<and> length (wf_forecast_days r) = 16)
   \<and> (\<exists>r. fst (get_hourly_forecast (example_config \<lparr> MAX_FORECAST_HOURS := 2 \<rparr>)
          (example_env \<lparr> action = cancel, data = None \<rparr> (example_weather 95 62))
          ''Vancouver'' 500 ''celsius'') = Inr r
        \<and> map hp_time (hf_hourly_data r) = [''2025-11-01T13:00'', ''2025-11-01T14:00''])
   \<and> get_hourly_forecast example_config
          (example_env \<lparr> action = cancel, data = None \<rparr> (example_weather 95 62))
          ''Vancouver'' 0 ''celsius''
     = get_hourly_forecast example_config
          (example_env \<lparr> action = cancel, data = None \<rparr> (example_weather 95 62))
          ''Vancouver'' 1 ''celsius''"
proof -
  let ?cfg = "example_config \<lparr> MAX_FORECAST_HOURS := 2 \<rparr>"
  let ?env = "example_env \<lparr> action = cancel, data = None \<rparr> (example_weather 95 62)"
  let ?loc = "to_LocationInfo vancouver"
  let ?req = "weather_request_of ?loc None (Some hourly_params) None 7 ''celsius''"
  have days: "MAX_FORECAST_DAYS example_config < 30" "MAX_FORECAST_DAYS example_config = 16"
    by (simp_all add: example_config_def)
  have low: "(0::int) < 1" by simp
  have first: "\<exists>r. fst (get_weather_forecast example_config ?env ''Vancouver'' 30 ''celsius'') = Inr r
                 \<and> length (wf_forecast_days r) = 16"
    using forecast_counts_clamped [of example_config 30 ?env "''Vancouver''" "''celsius''" 0]
      days sixteen_days
    by simp
  have third: "get_hourly_forecast example_config ?env ''Vancouver'' 0 ''celsius''
                 = get_hourly_forecast example_config ?env ''Vancouver'' 1 ''celsius''"
    using forecast_counts_clamped [of example_config 30 ?env "''Vancouver''" "''celsius''" 0] low
    by simp
  have hours: "MAX_FORECAST_HOURS ?cfg < 500" "MAX_FORECAST_HOURS ?cfg = 2"
    by simp_all
  note at = forecast_counts_clamped [of ?cfg 30 ?env "''Vancouver''" "''celsius''" 500]
  have same: "get_hourly_forecast ?cfg ?env ''Vancouver'' 500 ''celsius''
               = get_hourly_forecast ?cfg ?env ''Vancouver'' 2 ''celsius''"
    using at hours by simp
  obtain r where r: "fst (get_hourly_forecast ?cfg ?env ''Vancouver'' 500 ''celsius'') = Inr r"
    using two_hours unfolding same by (elim exE)
  have "\<forall>r. fst (get_hourly_forecast ?cfg ?env ''Vancouver'' 500 ''celsius'') = Inr r \<longrightarrow>
         (\<exists>location tr0 weather_data hourly stamps.
             resolve_location ?cfg ?env ''Vancouver'' = (Inr location, tr0)
           \<and> get_weather_data ?env (weather_request_of location None (Some hourly_params) None 7 ''celsius'')
                = Inr weather_data
           \<and> wd_hourly weather_data = Some hourly \<and> ser_time hourly = Some stamps
           \<and> length (hf_hourly_data r)
                = nat (min (max 1 (min 500 (MAX_FORECAST_HOURS ?cfg))) (int (length stamps)))
           \<and> map hp_time (hf_hourly_data r)
                = take (nat (max 1 (min 500 (MAX_FORECAST_HOURS ?cfg)))) stamps)"
    using at by (elim conjE)
  from this [rule_format, OF r] obtain location tr0 weather_data hourly stamps where
    res: "resolve_location ?cfg ?env ''Vancouver'' = (Inr location, tr0)"
    and api: "get_weather_data ?env (weather_request_of location None (Some hourly_params) None 7 ''celsius'')
                = Inr weather_data"
    and hly: "wd_hourly weather_data = Some hourly" and tms: "ser_time hourly = Some stamps"
    and shown: "map hp_time (hf_hourly_data r)
                = take (nat (max 1 (min 500 (MAX_FORECAST_HOURS ?cfg)))) stamps"
    by (elim exE conjE)
  have "hourly = example_hourly"
    using api hly by (auto simp: get_weather_data_def example_env_def example_weather_def)
  then have "stamps = [''2025-11-01T13:00'', ''2025-11-01T14:00'', ''2025-11-01T15:00'']"
    using tms by (simp add: example_hourly_def)
  then have "map hp_time (hf_hourly_data r) = [''2025-11-01T13:00'', ''2025-11-01T14:00'']"
    using shown by simp
  then have second: "\<exists>r. fst (get_hourly_forecast ?cfg ?env ''Vancouver'' 500 ''celsius'') = Inr r
        \<and> map hp_time (hf_hourly_data r) = [''2025-11-01T13:00'', ''2025-11-01T14:00'']"
    using r by (intro exI [of _ r] conjI)
  show ?thesis using first second third by (intro conjI)
qed

section \<open>Tool handlers: alerts\<close>



text \<open>
  C10. In a successful \<open>get_weather_alerts\<close> run, at most one returned alert has type
  \<open>severe_weather\<close>, and \<open>alert_count\<close> is the length of the alert list.
\<close>

theorem alerts_severe_unique:
  assumes "get_weather_alerts cfg env location_name = (Inr r, tr)"
  shows "length (filter (\<lambda>a. alert_type a = ''severe_weather'') (ar_alerts r)) \<le> 1
         \<and> ar_alert_count r = length (ar_alerts r)"
proof -
  from get_weather_alerts_built [OF assms] obtain weather_data where
    b: "build_alerts cfg env weather_data = Inr (ar_alerts r)"
    and n: "ar_alert_count r = length (ar_alerts r)"
    by (elim exE conjE)
  from build_alerts_scan [OF b] obtain hourly code wind hours where
    h: "ser_time hourly = Some hours"
    and s: "upcoming_scan cfg hourly (code_alerts cfg code @ wind_alerts cfg env wind)
              [0..<min 24 (length hours)] = Inr (ar_alerts r)"
    by (elim exE conjE)
  let ?base = "code_alerts cfg code @ wind_alerts cfg env wind"
  from upcoming_scan_hours [OF s]
  have "length (filter (\<lambda>a. alert_type a = ''severe_weather'') (ar_alerts r)) \<le> 1"
  proof
    assume "ar_alerts r = ?base"
    then show ?thesis using base_severe_count [of cfg code env wind] by simp
  next
    assume a: "\<not> list_ex (\<lambda>alert. alert_type alert = ''severe_weather'') ?base \<and>
      (\<exists>i t c. i < min 24 (length hours)
         \<and> series_at hourly ''weather_code'' i = Inr c \<and> c \<in> SEVERE_WEATHER_CODES cfg
         \<and> time_at hourly i = Inr t \<and> ar_alerts r = ?base @ [incoming_alert t]
         \<and> (\<forall>j<i. \<exists>c'. series_at hourly ''weather_code'' j = Inr c' \<and> c' \<notin> SEVERE_WEATHER_CODES cfg))"
    then have no: "filter (\<lambda>a. alert_type a = ''severe_weather'') ?base = []"
      using list_ex_filter_nil by (elim conjE)
    from a obtain t where r: "ar_alerts r = ?base @ [incoming_alert t]"
      by (elim conjE exE)
    show ?thesis unfolding r using no by (simp add: incoming_alert_def)
  qed
  then show ?thesis using n by (intro conjI)
qed

theorem alerts_severe_unique_witness:
  "fst (get_weather_alerts example_config
          (example_env \<lparr> action = cancel, data = None \<rparr> (example_weather 3 20)) ''Vancouver'')
     = Inr clear_result
   \<and> length (filter (\<lambda>a. alert_type a = ''severe_weather'') (ar_alerts clear_result)) \<le> 1
   \<and> ar_alert_count clear_result = length (ar_alerts clear_result)"
proof -
  let ?env = "example_env \<lparr> action = cancel, data = None \<rparr> (example_weather 3 20)"
  have run: "get_weather_alerts example_config ?env ''Vancouver''
               = (Inr clear_result, snd (get_weather_alerts example_config ?env ''Vancouver''))"
    using clear_run by (simp add: prod_eq_iff)
  show ?thesis
    using alerts_severe_unique [OF run] clear_run by simp
qed

end
